theory Spec2Isabelle
  imports
    Complex_Main
    "HOL-Library.Char_ord"
    "HOL-Library.List_Lexorder"
    "HOL-Library.Product_Lexorder"
begin

section \<open>Data model\<close>

text \<open>
  The conditional-order monitor (class \<open>PriceOrderMonitor\<close>) and the lease lock
  (class \<open>DistributedLock\<close>) are embedded as functions over an explicit ledger and an
  explicit exchange snapshot.

  Numbers that the source obtains with \<open>parseFloat\<close> are modelled as the exact
  rationals they denote (no rounding, no NaN); timestamps are integers, in milliseconds
  since the epoch; an identifier that the source finds missing (\<open>undefined\<close> or the
  empty string, both falsy) is the empty string.
\<close>

datatype position_side = Long | Short

datatype price_order_type = StopLoss | TakeProfit

datatype price_order_status = Active | Triggered | Cancelled

datatype trade_type = OpenTrade | CloseTrade

text \<open>
  A row of \<open>price_orders\<close>. The interface \<open>DBPriceOrder\<close> of the source is the
  row without its \<open>status\<close> column; the local objects the monitor iterates over are the
  rows read with \<open>status = 'active'\<close>. The columns \<open>id\<close>, \<open>updated_at\<close>,
  \<open>triggered_at\<close> and \<open>position_order_id\<close> are never read by the monitor and are left
  out.
\<close>

record DBPriceOrder =
  order_id :: string
  symbol :: string
  side :: position_side
  order_type :: price_order_type
  trigger_price :: rat
  quantity :: rat
  created_at :: int
  status :: price_order_status

text \<open>
  A row of \<open>positions\<close>, with the columns the monitor reads; the same shape is rebuilt
  from an opening trade when the row is missing.
\<close>

record position =
  pos_symbol :: string
  pos_side :: position_side
  entry_price :: rat
  pos_quantity :: rat
  pos_leverage :: int

record trade_row =
  tr_order_id :: string
  tr_symbol :: string
  tr_side :: position_side
  tr_type :: trade_type
  tr_price :: rat
  tr_quantity :: rat
  tr_leverage :: int
  tr_pnl :: rat
  tr_fee :: rat
  tr_timestamp :: int
  tr_status :: string

text \<open>
  A row of \<open>position_close_events\<close>. \<open>pnl_percent\<close> is \<open>None\<close> where the source
  divides by an entry price of zero and stores a non-finite number.
\<close>

record close_event =
  ce_symbol :: string
  ce_side :: position_side
  close_reason :: string
  trigger_type :: string
  ce_trigger_price :: rat
  close_price :: rat
  ce_entry_price :: rat
  ce_quantity :: rat
  ce_leverage :: int
  ce_pnl :: rat
  pnl_percent :: "rat option"
  ce_fee :: rat
  trigger_order_id :: string
  close_trade_id :: string
  ce_order_id :: string
  ce_created_at :: int
  processed :: int

text \<open>A row of \<open>inconsistent_states\<close>; the free-text \<open>error_message\<close> is left out.\<close>

record inconsistent_state =
  operation :: string
  is_symbol :: string
  is_side :: position_side
  exchange_success :: int
  db_success :: int
  exchange_order_id :: string
  is_created_at :: int
  resolved :: int

record ledger =
  positions :: "position list"
  price_orders :: "DBPriceOrder list"
  trades :: "trade_row list"
  position_close_events :: "close_event list"
  inconsistent_states :: "inconsistent_state list"

subsection \<open>The exchange, as the monitor sees it\<close>

text \<open>
  A trade of the exchange's history: \<open>trade_id\<close> is what \<open>formatTradeRecord\<close> computes
  for \<open>id\<close>, \<open>trade_timestamp\<close> is \<open>t.timestamp || t.create_time || 0\<close>, and
  \<open>trade_size\<close> is signed (negative sells).
\<close>

record ex_trade =
  trade_id :: string
  trade_price :: rat
  trade_size :: rat
  trade_fee :: rat
  trade_timestamp :: int

text \<open>
  A conditional order of the exchange: \<open>eo_id\<close> is \<open>(o.id || o.orderId || o.order_id)\<close>
  as a string, \<open>eo_contract\<close> is \<open>o.contract || o.symbol || ''\<close>, and \<open>eo_rule\<close> is
  \<open>o.trigger.rule\<close> where it is defined.
\<close>

record ex_order =
  eo_id :: string
  eo_contract :: string
  eo_rule :: "int option"

record ex_position =
  ep_contract :: string
  ep_size :: rat

text \<open>
  The exchange client is not part of the sources at hand; it enters as a record of its
  capabilities. The three queries that the monitor guards with \<open>try\<close>/\<open>catch\<close> answer
  \<open>None\<close> when they throw; the other capabilities are total functions
  (\<open>contractTypeInverse\<close> stands for \<open>getContractType() === 'inverse'\<close>). The exchange
  is a snapshot: a query is a function of its arguments only, so the retries of one
  search see the same answer.
\<close>

record exchange =
  normalizeContract :: "string \<Rightarrow> string"
  getPriceOrders :: "ex_order list option"
  getPositions :: "ex_position list option"
  getMyTrades :: "string \<Rightarrow> nat \<Rightarrow> int \<Rightarrow> ex_trade list option"
  calculatePnl :: "rat \<Rightarrow> rat \<Rightarrow> rat \<Rightarrow> position_side \<Rightarrow> string \<Rightarrow> rat"
  contractTypeInverse :: bool
  getQuantoMultiplier :: "string \<Rightarrow> rat"

section \<open>The ledger store\<close>

text \<open>
  Every \<open>dbClient.execute\<close> of the monitor is one statement. The store keeps the
  tables, the snapshot taken by an open transaction, and a journal of the statements
  other than reads that it has executed, in order.
\<close>

datatype db_stmt =
    BeginTransaction
  | Commit
  | Rollback
  | SelectActiveOrders
  | SelectPosition string position_side
  | SelectOpenTrade string position_side
  | SelectOppositeOrder string position_side price_order_type
  | DeletePosition string position_side
  | UpdateOrderStatus string price_order_status
  | UpdateOrderId string string
  | InsertTrade trade_row
  | InsertCloseEvent close_event
  | InsertInconsistentState inconsistent_state

record db =
  tables :: ledger
  snapshot :: "ledger option"
  journal :: "db_stmt list"

text \<open>The effect of a data statement on the tables.\<close>

fun write_ledger :: "db_stmt \<Rightarrow> ledger \<Rightarrow> ledger" where
  "write_ledger (DeletePosition s sd) l =
     l\<lparr>positions := filter (\<lambda>p. \<not> (pos_symbol p = s \<and> pos_side p = sd)) (positions l)\<rparr>"
| "write_ledger (UpdateOrderStatus oid st) l =
     l\<lparr>price_orders :=
         map (\<lambda>r. if order_id r = oid then r\<lparr>status := st\<rparr> else r) (price_orders l)\<rparr>"
| "write_ledger (UpdateOrderId new_id old_id) l =
     l\<lparr>price_orders :=
         map (\<lambda>r. if order_id r = old_id then r\<lparr>order_id := new_id\<rparr> else r) (price_orders l)\<rparr>"
| "write_ledger (InsertTrade t) l = l\<lparr>trades := trades l @ [t]\<rparr>"
| "write_ledger (InsertCloseEvent e) l =
     l\<lparr>position_close_events := position_close_events l @ [e]\<rparr>"
| "write_ledger (InsertInconsistentState i) l =
     l\<lparr>inconsistent_states := inconsistent_states l @ [i]\<rparr>"
| "write_ledger _ l = l"

text \<open>
  Transaction control as in SQLite: \<open>BEGIN\<close> fails inside a transaction, \<open>COMMIT\<close> and
  \<open>ROLLBACK\<close> fail outside one; \<open>ROLLBACK\<close> restores the tables of the snapshot.
  Writes outside a transaction take effect at once.
\<close>

fun admissible :: "db_stmt \<Rightarrow> db \<Rightarrow> bool" where
  "admissible BeginTransaction d = (snapshot d = None)"
| "admissible Commit d = (snapshot d \<noteq> None)"
| "admissible Rollback d = (snapshot d \<noteq> None)"
| "admissible _ d = True"

fun run_stmt :: "db_stmt \<Rightarrow> db \<Rightarrow> db" where
  "run_stmt BeginTransaction d =
     d\<lparr>snapshot := Some (tables d), journal := journal d @ [BeginTransaction]\<rparr>"
| "run_stmt Commit d = d\<lparr>snapshot := None, journal := journal d @ [Commit]\<rparr>"
| "run_stmt Rollback d =
     d\<lparr>tables := (case snapshot d of Some l \<Rightarrow> l | None \<Rightarrow> tables d),
       snapshot := None, journal := journal d @ [Rollback]\<rparr>"
| "run_stmt s d = d\<lparr>tables := write_ledger s (tables d), journal := journal d @ [s]\<rparr>"

text \<open>
  A computation on the store returns a value or throws, and leaves a store behind in both
  cases. The parameter \<open>F\<close> of \<open>execute\<close> and \<open>query\<close> says which statements the store
  rejects: a rejected statement throws and changes nothing.
\<close>

datatype 'a outcome = Ok 'a | Threw

type_synonym 'a dbm = "db \<Rightarrow> 'a outcome \<times> db"

definition ret :: "'a \<Rightarrow> 'a dbm" where
  "ret x = (\<lambda>d. (Ok x, d))"

definition throw :: "'a dbm" where
  "throw = (\<lambda>d. (Threw, d))"

definition and_then :: "'a dbm \<Rightarrow> ('a \<Rightarrow> 'b dbm) \<Rightarrow> 'b dbm" where
  "and_then m f = (\<lambda>d. case m d of (Ok x, d') \<Rightarrow> f x d' | (Threw, d') \<Rightarrow> (Threw, d'))"

definition try_catch :: "'a dbm \<Rightarrow> 'a dbm \<Rightarrow> 'a dbm" where
  "try_catch m h = (\<lambda>d. case m d of (Ok x, d') \<Rightarrow> (Ok x, d') | (Threw, d') \<Rightarrow> h d')"

definition execute :: "(db_stmt \<Rightarrow> bool) \<Rightarrow> db_stmt \<Rightarrow> unit dbm" where
  "execute F s = (\<lambda>d. if F s \<or> \<not> admissible s d then (Threw, d) else (Ok (), run_stmt s d))"

definition query :: "(db_stmt \<Rightarrow> bool) \<Rightarrow> db_stmt \<Rightarrow> (ledger \<Rightarrow> 'a) \<Rightarrow> 'a dbm" where
  "query F s f = (\<lambda>d. if F s then (Threw, d) else (Ok (f (tables d)), d))"

section \<open>The trade search\<close>

text \<open>
  \<open>Array.prototype.reduce\<close> without an initial value; the source calls it on non-empty
  arrays only, after testing \<open>length > 0\<close>, which is the \<open>None\<close> case here.
\<close>

fun reduce :: "('a \<Rightarrow> 'a \<Rightarrow> 'a) \<Rightarrow> 'a list \<Rightarrow> 'a option" where
  "reduce f [] = None"
| "reduce f (x # xs) = Some (foldl f x xs)"

definition timeToleranceMs :: int where
  "timeToleranceMs = 5000"

definition maxTimeWindowMs :: int where
  "maxTimeWindowMs = 24 * 60 * 60 * 1000"

definition searchStartTime :: "DBPriceOrder \<Rightarrow> int" where
  "searchStartTime order = created_at order - timeToleranceMs"

definition isCloseTrade :: "DBPriceOrder \<Rightarrow> ex_trade \<Rightarrow> bool" where
  "isCloseTrade order t =
     ((side order = Long \<and> trade_size t < 0) \<or> (side order = Short \<and> trade_size t > 0))"

text \<open>
  The price test, written twice in the source: with \<open>priceTolerancePercent = 0.2\<close> in
  the pre-check of \<open>handleTriggeredOrder\<close> and with \<open>0.1\<close> in \<open>findCloseTrade\<close>.
\<close>

definition priceMatches :: "rat \<Rightarrow> DBPriceOrder \<Rightarrow> rat \<Rightarrow> bool" where
  "priceMatches priceTolerancePercent order tradePrice =
     (let triggerPrice = trigger_price order;
          priceTolerance = triggerPrice * (priceTolerancePercent / 100)
      in if order_type order = StopLoss then
           (if side order = Long then tradePrice \<le> triggerPrice + priceTolerance
            else tradePrice \<ge> triggerPrice - priceTolerance)
         else
           (if side order = Long then tradePrice \<ge> triggerPrice - priceTolerance
            else tradePrice \<le> triggerPrice + priceTolerance))"

text \<open>The filter of \<open>findCloseTrade\<close> over the trades the exchange returns.\<close>

definition closeTradeFilter :: "DBPriceOrder \<Rightarrow> ex_trade \<Rightarrow> bool" where
  "closeTradeFilter order t =
     (if trade_timestamp t < searchStartTime order then False
      else if trade_timestamp t - created_at order > maxTimeWindowMs then False
      else if \<not> isCloseTrade order t then False
      else priceMatches (1 / 10) order (trade_price t))"

definition earlier :: "ex_trade \<Rightarrow> ex_trade \<Rightarrow> ex_trade" where
  "earlier earliest current =
     (if trade_timestamp current < trade_timestamp earliest then current else earliest)"

definition later :: "ex_trade \<Rightarrow> ex_trade \<Rightarrow> ex_trade" where
  "later latest current =
     (if trade_timestamp current > trade_timestamp latest then current else latest)"

text \<open>
  The retry loop of \<open>findCloseTrade\<close>, counting the attempts that remain. An exception
  of the exchange ends the search with \<open>null\<close>.
\<close>

fun findCloseTrade_attempts :: "exchange \<Rightarrow> DBPriceOrder \<Rightarrow> nat \<Rightarrow> ex_trade option" where
  "findCloseTrade_attempts ex order 0 = None"
| "findCloseTrade_attempts ex order (Suc n) =
     (case getMyTrades ex (normalizeContract ex (symbol order)) 500 (searchStartTime order) of
        None \<Rightarrow> None
      | Some fetched \<Rightarrow>
          (case reduce earlier (filter (closeTradeFilter order) fetched) of
             Some closeTrade \<Rightarrow> Some closeTrade
           | None \<Rightarrow> findCloseTrade_attempts ex order n))"

definition findCloseTrade :: "exchange \<Rightarrow> DBPriceOrder \<Rightarrow> ex_trade option" where
  "findCloseTrade ex order = findCloseTrade_attempts ex order 3"

section \<open>Reading the ledger\<close>

text \<open>
  \<open>getActiveOrdersFromDB\<close>: the active rows, \<open>ORDER BY symbol, created_at DESC\<close>
  (a stable sort; SQL leaves the order of equal keys open).
\<close>

definition selectActiveOrders :: "ledger \<Rightarrow> DBPriceOrder list" where
  "selectActiveOrders l =
     sort_key (\<lambda>r. (symbol r, - created_at r))
       (filter (\<lambda>r. status r = Active) (price_orders l))"

definition getActiveOrdersFromDB :: "(db_stmt \<Rightarrow> bool) \<Rightarrow> DBPriceOrder list dbm" where
  "getActiveOrdersFromDB F = query F SelectActiveOrders selectActiveOrders"

text \<open>\<open>getPositionInfo\<close> and \<open>findOpenTrade\<close> catch their own exceptions and answer \<open>null\<close>.\<close>

definition selectPosition :: "string \<Rightarrow> position_side \<Rightarrow> ledger \<Rightarrow> position option" where
  "selectPosition s sd l = find (\<lambda>p. pos_symbol p = s \<and> pos_side p = sd) (positions l)"

definition getPositionInfo ::
  "(db_stmt \<Rightarrow> bool) \<Rightarrow> string \<Rightarrow> position_side \<Rightarrow> position option dbm" where
  "getPositionInfo F s sd =
     try_catch (query F (SelectPosition s sd) (selectPosition s sd)) (ret None)"

definition newer :: "trade_row \<Rightarrow> trade_row \<Rightarrow> trade_row" where
  "newer latest current =
     (if tr_timestamp current > tr_timestamp latest then current else latest)"

text \<open>\<open>ORDER BY timestamp DESC LIMIT 1\<close> over the opening trades of a symbol and side.\<close>

definition selectOpenTrade :: "string \<Rightarrow> position_side \<Rightarrow> ledger \<Rightarrow> trade_row option" where
  "selectOpenTrade s sd l =
     reduce newer
       (filter (\<lambda>t. tr_symbol t = s \<and> tr_side t = sd \<and> tr_type t = OpenTrade) (trades l))"

definition findOpenTrade ::
  "(db_stmt \<Rightarrow> bool) \<Rightarrow> string \<Rightarrow> position_side \<Rightarrow> trade_row option dbm" where
  "findOpenTrade F s sd =
     try_catch (query F (SelectOpenTrade s sd) (selectOpenTrade s sd)) (ret None)"

definition positionFromOpenTrade :: "trade_row \<Rightarrow> position" where
  "positionFromOpenTrade openTrade =
     \<lparr>pos_symbol = tr_symbol openTrade, pos_side = tr_side openTrade,
      entry_price = tr_price openTrade, pos_quantity = tr_quantity openTrade,
      pos_leverage = tr_leverage openTrade\<rparr>"

text \<open>
  The position information that stage 1 of \<open>handleTriggeredOrder\<close> ends with when both
  reads succeed: the row of \<open>positions\<close>, or else the latest opening trade.
\<close>

definition knownPosition :: "DBPriceOrder \<Rightarrow> ledger \<Rightarrow> position option" where
  "knownPosition order l =
     (case selectPosition (symbol order) (side order) l of
        Some p \<Rightarrow> Some p
      | None \<Rightarrow> map_option positionFromOpenTrade (selectOpenTrade (symbol order) (side order) l))"

section \<open>Writing the ledger\<close>

definition updateOrderStatus ::
  "(db_stmt \<Rightarrow> bool) \<Rightarrow> string \<Rightarrow> price_order_status \<Rightarrow> unit dbm" where
  "updateOrderStatus F orderId st = execute F (UpdateOrderStatus orderId st)"

definition oppositeType :: "price_order_type \<Rightarrow> price_order_type" where
  "oppositeType ty = (if ty = StopLoss then TakeProfit else StopLoss)"

text \<open>
  \<open>cancelOppositeOrderInDB\<close>: the first active order of the opposite type for the same
  symbol and side is set to cancelled. The cancellation on the exchange in between is
  best effort, its exception is swallowed, and it leaves the ledger alone.
\<close>

definition selectOppositeOrder :: "DBPriceOrder \<Rightarrow> ledger \<Rightarrow> DBPriceOrder option" where
  "selectOppositeOrder triggeredOrder l =
     find (\<lambda>r. symbol r = symbol triggeredOrder \<and> side r = side triggeredOrder \<and>
               order_type r = oppositeType (order_type triggeredOrder) \<and> status r = Active)
       (price_orders l)"

definition cancelOppositeOrderInDB :: "(db_stmt \<Rightarrow> bool) \<Rightarrow> DBPriceOrder \<Rightarrow> unit dbm" where
  "cancelOppositeOrderInDB F triggeredOrder =
     and_then
       (query F
          (SelectOppositeOrder (symbol triggeredOrder) (side triggeredOrder)
             (oppositeType (order_type triggeredOrder)))
          (selectOppositeOrder triggeredOrder))
       (\<lambda>found. case found of
                  None \<Rightarrow> ret ()
                | Some opposite \<Rightarrow> updateOrderStatus F (order_id opposite) Cancelled)"

subsection \<open>The figures of a close\<close>

definition exitQuantity :: "ex_trade \<Rightarrow> rat" where
  "exitQuantity t = \<bar>trade_size t\<bar>"

definition leverageOf :: "position \<Rightarrow> int" where
  "leverageOf p = (if pos_leverage p = 0 then 1 else pos_leverage p)"

definition totalFee :: "exchange \<Rightarrow> DBPriceOrder \<Rightarrow> ex_trade \<Rightarrow> rat" where
  "totalFee ex order t =
     (let contract = normalizeContract ex (symbol order);
          positionValue =
            (if contractTypeInverse ex
             then exitQuantity t * getQuantoMultiplier ex contract * trade_price t
             else exitQuantity t * trade_price t);
          openFee = positionValue * (5 / 10000);
          closeFee = positionValue * (5 / 10000)
      in openFee + closeFee)"

definition netPnl :: "exchange \<Rightarrow> DBPriceOrder \<Rightarrow> position \<Rightarrow> ex_trade \<Rightarrow> rat" where
  "netPnl ex order p t =
     calculatePnl ex (entry_price p) (trade_price t) (exitQuantity t) (side order)
       (normalizeContract ex (symbol order))
     - totalFee ex order t"

definition pnlPercent :: "DBPriceOrder \<Rightarrow> position \<Rightarrow> ex_trade \<Rightarrow> rat option" where
  "pnlPercent order p t =
     (if entry_price p = 0 then None
      else Some
        ((if side order = Long
          then ((trade_price t - entry_price p) / entry_price p) * 100
          else ((entry_price p - trade_price t) / entry_price p) * 100)
         * of_int (leverageOf p)))"

definition closeOrderId :: "DBPriceOrder \<Rightarrow> ex_trade \<Rightarrow> string" where
  "closeOrderId order t = (if trade_id t \<noteq> [] then trade_id t else order_id order)"

definition closeTradeRow ::
  "exchange \<Rightarrow> int \<Rightarrow> DBPriceOrder \<Rightarrow> position \<Rightarrow> ex_trade \<Rightarrow> trade_row" where
  "closeTradeRow ex now order p t =
     \<lparr>tr_order_id = closeOrderId order t, tr_symbol = symbol order, tr_side = side order,
      tr_type = CloseTrade, tr_price = trade_price t, tr_quantity = exitQuantity t,
      tr_leverage = leverageOf p, tr_pnl = netPnl ex order p t, tr_fee = totalFee ex order t,
      tr_timestamp = now, tr_status = ''filled''\<rparr>"

definition closeEventRow ::
  "exchange \<Rightarrow> int \<Rightarrow> DBPriceOrder \<Rightarrow> position \<Rightarrow> ex_trade \<Rightarrow> close_event" where
  "closeEventRow ex now order p t =
     \<lparr>ce_symbol = symbol order, ce_side = side order,
      close_reason =
        (if order_type order = StopLoss then ''stop_loss_triggered''
         else ''take_profit_triggered''),
      trigger_type = ''exchange_order'', ce_trigger_price = trigger_price order,
      close_price = trade_price t, ce_entry_price = entry_price p,
      ce_quantity = exitQuantity t, ce_leverage = leverageOf p,
      ce_pnl = netPnl ex order p t, pnl_percent = pnlPercent order p t,
      ce_fee = totalFee ex order t, trigger_order_id = order_id order,
      close_trade_id = trade_id t, ce_order_id = closeOrderId order t,
      ce_created_at = now, processed = 0\<rparr>"

definition inconsistentRecord :: "string \<Rightarrow> int \<Rightarrow> DBPriceOrder \<Rightarrow> inconsistent_state" where
  "inconsistentRecord op now order =
     \<lparr>operation = op, is_symbol = symbol order, is_side = side order,
      exchange_success = 1, db_success = 0, exchange_order_id = order_id order,
      is_created_at = now, resolved = 0\<rparr>"

section \<open>handleTriggeredOrder\<close>

text \<open>
  The pre-check at the head of \<open>handleTriggeredOrder\<close>: among the close-direction
  trades since the start of the search window, the latest one decides; a price that
  does not match within 0.2 percent makes the function return at once. An exception of
  the exchange is logged and the function goes on.
\<close>

definition priceCheckRejects :: "exchange \<Rightarrow> DBPriceOrder \<Rightarrow> bool" where
  "priceCheckRejects ex order =
     (case getMyTrades ex (normalizeContract ex (symbol order)) 100 (searchStartTime order) of
        None \<Rightarrow> False
      | Some recentTrades \<Rightarrow>
          (case reduce later
                  (filter (\<lambda>t. \<not> trade_timestamp t < searchStartTime order \<and> isCloseTrade order t)
                     recentTrades) of
             None \<Rightarrow> False
           | Some latestCloseTrade \<Rightarrow>
               \<not> priceMatches (2 / 10) order (trade_price latestCloseTrade)))"

definition positionExists :: "exchange \<Rightarrow> DBPriceOrder \<Rightarrow> ex_position list \<Rightarrow> bool" where
  "positionExists ex order ps =
     list_ex (\<lambda>p. ep_contract p = normalizeContract ex (symbol order) \<and> \<bar>ep_size p\<bar> > 0) ps"

text \<open>The order vanished, no close trade, the position is still there: cancelled.\<close>

definition markCancelled :: "(db_stmt \<Rightarrow> bool) \<Rightarrow> DBPriceOrder \<Rightarrow> unit dbm" where
  "markCancelled F order =
     and_then (execute F BeginTransaction) (\<lambda>_.
       try_catch
         (and_then (updateOrderStatus F (order_id order) Cancelled) (\<lambda>_.
          execute F Commit))
         (execute F Rollback))"

text \<open>The order and the position vanished and no close trade was found.\<close>

definition recordTriggeredNoTrade ::
  "(db_stmt \<Rightarrow> bool) \<Rightarrow> int \<Rightarrow> DBPriceOrder \<Rightarrow> unit dbm" where
  "recordTriggeredNoTrade F now order =
     and_then (execute F BeginTransaction) (\<lambda>_.
       try_catch
         (and_then (updateOrderStatus F (order_id order) Triggered) (\<lambda>_.
          and_then (cancelOppositeOrderInDB F order) (\<lambda>_.
          and_then (execute F (DeletePosition (symbol order) (side order))) (\<lambda>_.
          and_then (execute F (InsertInconsistentState
                      (inconsistentRecord ''price_order_triggered_no_trade'' now order))) (\<lambda>_.
          execute F Commit)))))
         (execute F Rollback))"

text \<open>
  Stage 5: the five write steps of a confirmed trigger, then the transaction around
  them and what follows its failure.
\<close>

definition triggeredSteps ::
  "(db_stmt \<Rightarrow> bool) \<Rightarrow> exchange \<Rightarrow> int \<Rightarrow> DBPriceOrder \<Rightarrow> position \<Rightarrow> ex_trade \<Rightarrow> unit dbm" where
  "triggeredSteps F ex now order p t =
     and_then (execute F (DeletePosition (symbol order) (side order))) (\<lambda>_.
     and_then (updateOrderStatus F (order_id order) Triggered) (\<lambda>_.
     and_then (cancelOppositeOrderInDB F order) (\<lambda>_.
     and_then (execute F (InsertTrade (closeTradeRow ex now order p t))) (\<lambda>_.
     execute F (InsertCloseEvent (closeEventRow ex now order p t))))))"

definition commitTriggered ::
  "(db_stmt \<Rightarrow> bool) \<Rightarrow> exchange \<Rightarrow> int \<Rightarrow> DBPriceOrder \<Rightarrow> position \<Rightarrow> ex_trade \<Rightarrow> unit dbm" where
  "commitTriggered F ex now order p t =
     and_then (execute F BeginTransaction) (\<lambda>_.
       try_catch
         (and_then (triggeredSteps F ex now order p t) (\<lambda>_.
          execute F Commit))
         (and_then (execute F Rollback) (\<lambda>_.
          try_catch
            (execute F (InsertInconsistentState
               (inconsistentRecord ''price_order_triggered'' now order)))
            (ret ()))))"

definition handleTriggeredOrder ::
  "(db_stmt \<Rightarrow> bool) \<Rightarrow> exchange \<Rightarrow> int \<Rightarrow> DBPriceOrder \<Rightarrow> unit dbm" where
  "handleTriggeredOrder F ex now order =
     (if priceCheckRejects ex order then ret ()
      else
        and_then (getPositionInfo F (symbol order) (side order)) (\<lambda>found.
        and_then
          (case found of
             Some p \<Rightarrow> ret (Some p)
           | None \<Rightarrow>
               and_then (findOpenTrade F (symbol order) (side order)) (\<lambda>openTrade.
               ret (map_option positionFromOpenTrade openTrade))) (\<lambda>position.
        case findCloseTrade ex order of
          None \<Rightarrow>
            (case getPositions ex of
               None \<Rightarrow> throw
             | Some ps \<Rightarrow>
                 if positionExists ex order ps then markCancelled F order
                 else recordTriggeredNoTrade F now order)
        | Some closeTrade \<Rightarrow>
            (case position of
               None \<Rightarrow>
                 and_then (updateOrderStatus F (order_id order) Triggered) (\<lambda>_.
                 cancelOppositeOrderInDB F order)
             | Some p \<Rightarrow> commitTriggered F ex now order p closeTrade))))"

text \<open>
  The write steps of stage 5 in the order of their execution, for the tables \<open>l\<close> at
  the start of the transaction. Step 3 is there when the \<open>SELECT\<close> of
  \<open>cancelOppositeOrderInDB\<close> finds a row: the first active order of the opposite type
  for the symbol and side, the rows that step 2 has just set to triggered apart.
\<close>

definition oppositeAtStep3 :: "DBPriceOrder \<Rightarrow> ledger \<Rightarrow> DBPriceOrder option" where
  "oppositeAtStep3 order l =
     find (\<lambda>r. symbol r = symbol order \<and> side r = side order \<and>
               order_type r = oppositeType (order_type order) \<and> status r = Active \<and>
               order_id r \<noteq> order_id order)
       (price_orders l)"

definition triggeredWriteSteps ::
  "exchange \<Rightarrow> int \<Rightarrow> DBPriceOrder \<Rightarrow> position \<Rightarrow> ex_trade \<Rightarrow> ledger \<Rightarrow> db_stmt list" where
  "triggeredWriteSteps ex now order p t l =
     [DeletePosition (symbol order) (side order),
      UpdateOrderStatus (order_id order) Triggered] @
     (case oppositeAtStep3 order l of
        None \<Rightarrow> []
      | Some opposite \<Rightarrow> [UpdateOrderStatus (order_id opposite) Cancelled]) @
     [InsertTrade (closeTradeRow ex now order p t),
      InsertCloseEvent (closeEventRow ex now order p t)]"

text \<open>The write steps of the transaction that records a trigger without a trade.\<close>

definition noTradeWriteSteps :: "int \<Rightarrow> DBPriceOrder \<Rightarrow> ledger \<Rightarrow> db_stmt list" where
  "noTradeWriteSteps now order l =
     [UpdateOrderStatus (order_id order) Triggered] @
     (case oppositeAtStep3 order l of
        None \<Rightarrow> []
      | Some opposite \<Rightarrow> [UpdateOrderStatus (order_id opposite) Cancelled]) @
     [DeletePosition (symbol order) (side order),
      InsertInconsistentState (inconsistentRecord ''price_order_triggered_no_trade'' now order)]"

text \<open>The tables after a list of statements, one after the other.\<close>

definition write_all :: "db_stmt list \<Rightarrow> ledger \<Rightarrow> ledger" where
  "write_all steps l = foldl (\<lambda>l s. write_ledger s l) l steps"

text \<open>
  A computation journals only statements that satisfy \<open>P\<close>: whatever the store it
  starts from, its journal afterwards is the journal before, extended by such statements.
\<close>

definition journals_only :: "(db_stmt \<Rightarrow> bool) \<Rightarrow> 'a dbm \<Rightarrow> bool" where
  "journals_only P m =
     (\<forall>d. \<exists>js. journal (snd (m d)) = journal d @ js \<and> (\<forall>s\<in>set js. P s))"

definition isUpdateOrderId :: "db_stmt \<Rightarrow> bool" where
  "isUpdateOrderId s = (case s of UpdateOrderId new_id old_id \<Rightarrow> True | _ \<Rightarrow> False)"

section \<open>checkTriggeredOrders\<close>

text \<open>
  The keys of \<open>exchangeOrderMap\<close> (orders without an id are filtered out) and of
  \<open>exchangePositionMap\<close> (positions of size zero are filtered out).
\<close>

definition exchangeOrderIds :: "ex_order list \<Rightarrow> string list" where
  "exchangeOrderIds exchangeOrders = filter (\<lambda>i. i \<noteq> []) (map eo_id exchangeOrders)"

definition exchangePositionContracts :: "ex_position list \<Rightarrow> string list" where
  "exchangePositionContracts exchangePositions =
     map ep_contract (filter (\<lambda>p. \<bar>ep_size p\<bar> > 0) exchangePositions)"

text \<open>
  The order type that the trigger rule of an exchange order stands for: rule 1 fires at
  or above the trigger (take-profit of a long, stop-loss of a short), rule 2 at or below.
\<close>

definition matchesOrderType :: "DBPriceOrder \<Rightarrow> ex_order \<Rightarrow> bool" where
  "matchesOrderType dbOrder eo =
     (case eo_rule eo of
        None \<Rightarrow> False
      | Some rule \<Rightarrow>
          (if order_type dbOrder = StopLoss
           then (if side dbOrder = Long then rule = 2 else rule = 1)
           else (if side dbOrder = Long then rule = 1 else rule = 2)))"

text \<open>
  The repair of a drifted identifier. First the id to adopt, if there is one: that of
  the first conditional order of the exchange for the same contract whose rule stands
  for the type of the local order, when it is there and differs from the local id.
\<close>

definition repairTarget :: "exchange \<Rightarrow> ex_order list \<Rightarrow> DBPriceOrder \<Rightarrow> string option" where
  "repairTarget ex exchangeOrders dbOrder =
     (let contract = normalizeContract ex (symbol dbOrder);
          exchangeContractOrders =
            filter (\<lambda>eo. normalizeContract ex (eo_contract eo) = contract) exchangeOrders
      in case find (matchesOrderType dbOrder) exchangeContractOrders of
           None \<Rightarrow> None
         | Some matchingOrder \<Rightarrow>
             (let newOrderId = eo_id matchingOrder in
              if newOrderId \<noteq> [] \<and> newOrderId \<noteq> order_id dbOrder then Some newOrderId
              else None))"

text \<open>
  Then the update: the local order and the flag \<open>orderInExchange\<close> after it. A
  failed \<open>UPDATE\<close> is logged and changes neither.
\<close>

definition repairOrderId ::
  "(db_stmt \<Rightarrow> bool) \<Rightarrow> exchange \<Rightarrow> ex_order list \<Rightarrow> DBPriceOrder \<Rightarrow> (DBPriceOrder \<times> bool) dbm" where
  "repairOrderId F ex exchangeOrders dbOrder =
     (case repairTarget ex exchangeOrders dbOrder of
        None \<Rightarrow> ret (dbOrder, False)
      | Some newOrderId \<Rightarrow>
          try_catch
            (and_then (execute F (UpdateOrderId newOrderId (order_id dbOrder))) (\<lambda>_.
             ret (dbOrder\<lparr>order_id := newOrderId\<rparr>, True)))
            (ret (dbOrder, False)))"

text \<open>The body of the loop over the active orders, inside its \<open>try\<close>.\<close>

definition checkOrder ::
  "(db_stmt \<Rightarrow> bool) \<Rightarrow> exchange \<Rightarrow> int \<Rightarrow> ex_order list \<Rightarrow> ex_position list \<Rightarrow>
   DBPriceOrder \<Rightarrow> unit dbm" where
  "checkOrder F ex now exchangeOrders exchangePositions dbOrder =
     (let contract = normalizeContract ex (symbol dbOrder);
          orderInExchange = order_id dbOrder \<in> set (exchangeOrderIds exchangeOrders);
          positionInExchange = contract \<in> set (exchangePositionContracts exchangePositions)
      in and_then
           (if \<not> orderInExchange \<and> positionInExchange
            then repairOrderId F ex exchangeOrders dbOrder
            else ret (dbOrder, orderInExchange))
           (\<lambda>(dbOrder', orderInExchange').
              if \<not> orderInExchange' then
                (if \<not> positionInExchange then handleTriggeredOrder F ex now dbOrder'
                 else
                   (case findCloseTrade ex dbOrder' of
                      Some closeTrade \<Rightarrow> handleTriggeredOrder F ex now dbOrder'
                    | None \<Rightarrow> ret ()))
              else ret ()))"

text \<open>
  One order of the loop: an exception is caught and logged, the loop goes on with the
  store as the failed order left it.
\<close>

definition processOrder ::
  "(db_stmt \<Rightarrow> bool) \<Rightarrow> exchange \<Rightarrow> int \<Rightarrow> ex_order list \<Rightarrow> ex_position list \<Rightarrow>
   db \<Rightarrow> DBPriceOrder \<Rightarrow> db" where
  "processOrder F ex now exchangeOrders exchangePositions d dbOrder =
     snd (checkOrder F ex now exchangeOrders exchangePositions dbOrder d)"

text \<open>
  One cycle of the monitor. \<open>isRunning\<close> is the flag of the previous cycle; a cycle that
  finds it set does nothing. A failure to list the exchange's orders ends the cycle, a
  failure to list its positions leaves the position map empty.
\<close>

definition checkTriggeredOrders ::
  "(db_stmt \<Rightarrow> bool) \<Rightarrow> exchange \<Rightarrow> int \<Rightarrow> bool \<Rightarrow> db \<Rightarrow> db" where
  "checkTriggeredOrders F ex now isRunning d =
     (if isRunning then d
      else
        (case getActiveOrdersFromDB F d of
           (Threw, d') \<Rightarrow> d'
         | (Ok activeOrders, d') \<Rightarrow>
             (if activeOrders = [] then d'
              else
                (case getPriceOrders ex of
                   None \<Rightarrow> d'
                 | Some exchangeOrders \<Rightarrow>
                     (let exchangePositions =
                            (case getPositions ex of None \<Rightarrow> [] | Some ps \<Rightarrow> ps)
                      in foldl (processOrder F ex now exchangeOrders exchangePositions) d'
                           activeOrders)))))"

subsection \<open>Orders that a cycle leaves alone\<close>






section \<open>The lease lock\<close>

text \<open>
  \<open>DistributedLock\<close> keeps a lease as a row of \<open>system_config\<close>: the key, the holder
  (\<open>value\<close>) and \<open>updated_at\<close>. The readings of the clock within one call are taken
  as one instant \<open>now\<close>. \<open>F\<close> says which of the three statements the store rejects;
  any exception makes \<open>tryAcquire\<close> return false.
\<close>

type_synonym lease_store = "string \<rightharpoonup> string \<times> int"

datatype lease_stmt = SelectLease | UpdateLease | ReplaceLease

definition LOCK_TIMEOUT_MS :: int where
  "LOCK_TIMEOUT_MS = 30000"

definition acquireLease ::
  "(lease_stmt \<Rightarrow> bool) \<Rightarrow> int \<Rightarrow> string \<Rightarrow> string \<Rightarrow> lease_store \<Rightarrow> bool \<times> lease_store" where
  "acquireLease F now key holder st =
     (if F ReplaceLease then (False, st) else (True, st(key \<mapsto> (holder, now))))"

definition tryAcquire ::
  "(lease_stmt \<Rightarrow> bool) \<Rightarrow> int \<Rightarrow> string \<Rightarrow> string \<Rightarrow> lease_store \<Rightarrow> bool \<times> lease_store" where
  "tryAcquire F now key holder st =
     (if F SelectLease then (False, st)
      else case st key of
        None \<Rightarrow> acquireLease F now key holder st
      | Some (lockValue, lockTime) \<Rightarrow>
          (let lockAge = now - lockTime in
           if lockAge < LOCK_TIMEOUT_MS then
             (if lockValue = holder then
                (if F UpdateLease then (False, st) else (True, st(key \<mapsto> (lockValue, now))))
              else (False, st))
           else acquireLease F now key holder st))"

section \<open>Concrete scenarios\<close>

text \<open>
  Stand-ins for the inputs of the scenarios below: a stop-loss and a take-profit order
  protecting one long BTC position, and an exchange snapshot built from an order list, a
  position list and a trade history. The snapshot answers \<open>getMyTrades\<close> with the
  trades at or after \<open>since\<close>, cut at \<open>limit\<close>, and computes a linear profit.
\<close>

definition noFaults :: "db_stmt \<Rightarrow> bool" where
  "noFaults s = False"

definition stopLossOrder :: DBPriceOrder where
  "stopLossOrder =
     \<lparr>order_id = ''sl-1'', symbol = ''BTC'', side = Long, order_type = StopLoss,
      trigger_price = 49000, quantity = 1, created_at = 1000000, status = Active\<rparr>"

definition takeProfitOrder :: DBPriceOrder where
  "takeProfitOrder =
     \<lparr>order_id = ''tp-1'', symbol = ''BTC'', side = Long, order_type = TakeProfit,
      trigger_price = 52000, quantity = 1, created_at = 1000000, status = Active\<rparr>"

definition btcPosition :: position where
  "btcPosition =
     \<lparr>pos_symbol = ''BTC'', pos_side = Long, entry_price = 50000, pos_quantity = 1,
      pos_leverage = 10\<rparr>"

definition sellAt :: "string \<Rightarrow> rat \<Rightarrow> int \<Rightarrow> ex_trade" where
  "sellAt tid price time =
     \<lparr>trade_id = tid, trade_price = price, trade_size = - 1, trade_fee = 0,
      trade_timestamp = time\<rparr>"

definition snapshotOf :: "ex_order list \<Rightarrow> ex_position list \<Rightarrow> ex_trade list \<Rightarrow> exchange" where
  "snapshotOf eos eps ts =
     \<lparr>normalizeContract = (\<lambda>s. s @ ''_USDT''),
      getPriceOrders = Some eos,
      getPositions = Some eps,
      getMyTrades = (\<lambda>contract limit since.
        Some (take limit (filter (\<lambda>t. since \<le> trade_timestamp t) ts))),
      calculatePnl = (\<lambda>entry exit qty sd contract.
        if sd = Long then (exit - entry) * qty else (entry - exit) * qty),
      contractTypeInverse = False,
      getQuantoMultiplier = (\<lambda>contract. 1)\<rparr>"

definition rejectInserts :: "db_stmt \<Rightarrow> bool" where
  "rejectInserts s =
     (case s of
        InsertTrade r \<Rightarrow> True
      | InsertCloseEvent e \<Rightarrow> True
      | InsertInconsistentState i \<Rightarrow> True
      | _ \<Rightarrow> False)"

definition rejectTradeInserts :: "db_stmt \<Rightarrow> bool" where
  "rejectTradeInserts s = (case s of InsertTrade r \<Rightarrow> True | _ \<Rightarrow> False)"

definition storeOf :: "position list \<Rightarrow> DBPriceOrder list \<Rightarrow> db" where
  "storeOf ps os =
     \<lparr>tables = \<lparr>positions = ps, price_orders = os, trades = [],
        position_close_events = [], inconsistent_states = []\<rparr>,
      snapshot = None, journal = []\<rparr>"

section \<open>Running the store\<close>

lemma find_after_trigger:
  "find (\<lambda>r. P r \<and> status r = Active)
     (map (\<lambda>r. if order_id r = oid then r\<lparr>status := Triggered\<rparr> else r) xs)
   = find (\<lambda>r. P r \<and> status r = Active \<and> order_id r \<noteq> oid) xs"
  by (induction xs) auto

lemma selectOpposite_after_trigger:
  "selectOppositeOrder order (write_ledger (UpdateOrderStatus (order_id order) Triggered) l)
   = oppositeAtStep3 order l"
  using find_after_trigger [of "\<lambda>r. symbol r = symbol order \<and> side r = side order \<and>
               order_type r = oppositeType (order_type order)" "order_id order" "price_orders l"]
  by (simp add: selectOppositeOrder_def oppositeAtStep3_def)

lemma selectOpposite_after_delete:
  "selectOppositeOrder order (write_ledger (DeletePosition s sd) l) = selectOppositeOrder order l"
  by (simp add: selectOppositeOrder_def)

lemma oppositeAtStep3_after_delete:
  "oppositeAtStep3 order (write_ledger (DeletePosition s sd) l) = oppositeAtStep3 order l"
  by (simp add: oppositeAtStep3_def)

lemma cancelOpposite_ok:
  assumes "\<forall>s. \<not> F s"
  shows "cancelOppositeOrderInDB F order d =
    (case selectOppositeOrder order (tables d) of
       None \<Rightarrow> (Ok (), d)
     | Some opp \<Rightarrow> (Ok (), run_stmt (UpdateOrderStatus (order_id opp) Cancelled) d))"
  using assms
  by (simp add: cancelOppositeOrderInDB_def and_then_def query_def ret_def updateOrderStatus_def
        execute_def split: option.splits)

lemma triggeredSteps_ok:
  assumes nf: "\<forall>s. \<not> F s"
  shows "triggeredSteps F ex now order p t d =
    (Ok (), d\<lparr>tables := write_all (triggeredWriteSteps ex now order p t (tables d)) (tables d),
        journal := journal d @ triggeredWriteSteps ex now order p t (tables d)\<rparr>)"
  using nf
  by (simp add: triggeredSteps_def and_then_def execute_def updateOrderStatus_def
       cancelOpposite_ok Let_def triggeredWriteSteps_def selectOpposite_after_trigger
       oppositeAtStep3_after_delete write_all_def
       del: write_ledger.simps split: option.splits)

lemma commitTriggered_ok:
  assumes nf: "\<forall>s. \<not> F s" and sn: "snapshot d = None"
  shows "commitTriggered F ex now order p t d =
    (Ok (), \<lparr>tables = write_all (triggeredWriteSteps ex now order p t (tables d)) (tables d),
        snapshot = None,
        journal = journal d @ [BeginTransaction] @
          triggeredWriteSteps ex now order p t (tables d) @ [Commit]\<rparr>)"
  using nf sn
  by (simp add: commitTriggered_def and_then_def try_catch_def execute_def triggeredSteps_ok)

lemma recordTriggeredNoTrade_ok:
  assumes nf: "\<forall>s. \<not> F s" and sn: "snapshot d = None"
  shows "recordTriggeredNoTrade F now order d =
    (Ok (), \<lparr>tables = write_all (noTradeWriteSteps now order (tables d)) (tables d),
        snapshot = None,
        journal = journal d @ [BeginTransaction] @
          noTradeWriteSteps now order (tables d) @ [Commit]\<rparr>)"
  using nf sn
  by (simp add: recordTriggeredNoTrade_def and_then_def try_catch_def execute_def
       updateOrderStatus_def cancelOpposite_ok noTradeWriteSteps_def
       selectOpposite_after_trigger write_all_def
       del: write_ledger.simps split: option.splits)

lemma markCancelled_ok:
  assumes nf: "\<forall>s. \<not> F s" and sn: "snapshot d = None"
  shows "markCancelled F order d =
    (Ok (), \<lparr>tables = write_ledger (UpdateOrderStatus (order_id order) Cancelled) (tables d),
        snapshot = None,
        journal = journal d @
          [BeginTransaction, UpdateOrderStatus (order_id order) Cancelled, Commit]\<rparr>)"
  using nf sn
  by (simp add: markCancelled_def and_then_def try_catch_def execute_def updateOrderStatus_def
       del: write_ledger.simps)

lemma markTriggeredOnly_ok:
  assumes nf: "\<forall>s. \<not> F s"
  shows "and_then (updateOrderStatus F (order_id order) Triggered)
           (\<lambda>_. cancelOppositeOrderInDB F order) d =
    (Ok (), d\<lparr>tables :=
         write_all ([UpdateOrderStatus (order_id order) Triggered] @
            (case oppositeAtStep3 order (tables d) of None \<Rightarrow> []
             | Some r \<Rightarrow> [UpdateOrderStatus (order_id r) Cancelled])) (tables d),
        journal := journal d @ [UpdateOrderStatus (order_id order) Triggered] @
            (case oppositeAtStep3 order (tables d) of None \<Rightarrow> []
             | Some r \<Rightarrow> [UpdateOrderStatus (order_id r) Cancelled])\<rparr>)"
  using nf
  by (simp add: and_then_def execute_def updateOrderStatus_def cancelOpposite_ok
       selectOpposite_after_trigger write_all_def
       del: write_ledger.simps split: option.splits)

lemma handle_no_faults:
  assumes nf: "\<forall>s. \<not> F s"
  shows "handleTriggeredOrder F ex now order d =
     (if priceCheckRejects ex order then (Ok (), d)
      else case findCloseTrade ex order of
          None \<Rightarrow>
            (case getPositions ex of
               None \<Rightarrow> (Threw, d)
             | Some ps \<Rightarrow>
                 if positionExists ex order ps then markCancelled F order d
                 else recordTriggeredNoTrade F now order d)
        | Some closeTrade \<Rightarrow>
            (case knownPosition order (tables d) of
               None \<Rightarrow>
                 and_then (updateOrderStatus F (order_id order) Triggered) (\<lambda>_.
                 cancelOppositeOrderInDB F order) d
             | Some p \<Rightarrow> commitTriggered F ex now order p closeTrade d))"
  using nf
  by (simp add: handleTriggeredOrder_def getPositionInfo_def findOpenTrade_def and_then_def
        try_catch_def query_def ret_def throw_def knownPosition_def split: option.splits)

subsection \<open>The tables after the step lists\<close>

lemma write_all_triggered_trades:
  "trades (write_all (triggeredWriteSteps ex now order p t l) l)
     = trades l @ [closeTradeRow ex now order p t]"
  by (simp add: write_all_def triggeredWriteSteps_def split: option.splits)

lemma write_all_triggered_events:
  "position_close_events (write_all (triggeredWriteSteps ex now order p t l) l)
     = position_close_events l @ [closeEventRow ex now order p t]"
  by (simp add: write_all_def triggeredWriteSteps_def split: option.splits)

lemma write_all_triggered_inconsistent:
  "inconsistent_states (write_all (triggeredWriteSteps ex now order p t l) l)
     = inconsistent_states l"
  by (simp add: write_all_def triggeredWriteSteps_def split: option.splits)

lemma write_all_triggered_positions:
  "positions (write_all (triggeredWriteSteps ex now order p t l) l)
     = filter (\<lambda>q. \<not> (pos_symbol q = symbol order \<and> pos_side q = side order)) (positions l)"
  by (simp add: write_all_def triggeredWriteSteps_def split: option.splits)

lemma write_all_noTrade_trades:
  "trades (write_all (noTradeWriteSteps now order l) l) = trades l"
  by (simp add: write_all_def noTradeWriteSteps_def split: option.splits)

lemma write_all_noTrade_events:
  "position_close_events (write_all (noTradeWriteSteps now order l) l) = position_close_events l"
  by (simp add: write_all_def noTradeWriteSteps_def split: option.splits)

lemma write_all_noTrade_inconsistent:
  "inconsistent_states (write_all (noTradeWriteSteps now order l) l)
     = inconsistent_states l @ [inconsistentRecord ''price_order_triggered_no_trade'' now order]"
  by (simp add: write_all_def noTradeWriteSteps_def split: option.splits)

lemma write_all_noTrade_positions:
  "positions (write_all (noTradeWriteSteps now order l) l)
     = filter (\<lambda>q. \<not> (pos_symbol q = symbol order \<and> pos_side q = side order)) (positions l)"
  by (simp add: write_all_def noTradeWriteSteps_def split: option.splits)

lemma write_all_status_positions:
  "positions (write_all (UpdateOrderStatus a st #
      (case opp of None \<Rightarrow> [] | Some r \<Rightarrow> [UpdateOrderStatus (order_id r) st'])) l) = positions l"
  by (simp add: write_all_def split: option.splits)

subsection \<open>The loop body when order and position are gone\<close>

lemma not_in_contracts_not_exists:
  "normalizeContract ex (symbol order) \<notin> set (exchangePositionContracts eps) \<Longrightarrow>
   \<not> positionExists ex order eps"
  by (force simp: positionExists_def exchangePositionContracts_def list_ex_iff)

lemma checkOrder_gone:
  assumes "order_id dbOrder \<notin> set (exchangeOrderIds eos)"
    and "normalizeContract ex (symbol dbOrder) \<notin> set (exchangePositionContracts eps)"
  shows "checkOrder F ex now eos eps dbOrder d = handleTriggeredOrder F ex now dbOrder d"
  using assms by (simp add: checkOrder_def and_then_def ret_def)

section \<open>The scenarios, evaluated\<close>

lemmas scenario_defs = snapshotOf_def storeOf_def stopLossOrder_def takeProfitOrder_def
  btcPosition_def sellAt_def

lemma scenarioA_priceCheck:
  "\<not> priceCheckRejects (snapshotOf [] [] [sellAt ''t-1'' 48950 1000010]) stopLossOrder"
  by (simp add: priceCheckRejects_def scenario_defs searchStartTime_def timeToleranceMs_def
      isCloseTrade_def later_def priceMatches_def)

lemma scenarioA_findCloseTrade:
  "findCloseTrade (snapshotOf [] [] [sellAt ''t-1'' 48950 1000010]) stopLossOrder
    = Some (sellAt ''t-1'' 48950 1000010)"
  by (simp add: findCloseTrade_def numeral_3_eq_3 scenario_defs searchStartTime_def
      timeToleranceMs_def maxTimeWindowMs_def closeTradeFilter_def isCloseTrade_def earlier_def
      priceMatches_def)

lemma scenarioA_knownPosition:
  "knownPosition stopLossOrder (tables (storeOf [btcPosition] [stopLossOrder, takeProfitOrder]))
    = Some btcPosition"
  by (simp add: knownPosition_def selectPosition_def scenario_defs)

lemma scenarioA_opposite:
  "oppositeAtStep3 stopLossOrder (tables (storeOf [btcPosition] [stopLossOrder, takeProfitOrder]))
    = Some takeProfitOrder"
  by (simp add: oppositeAtStep3_def oppositeType_def scenario_defs)

lemma noFaults_all: "\<forall>s. \<not> noFaults s"
  by (simp add: noFaults_def)

lemma storeOf_snapshot: "snapshot (storeOf ps os) = None"
  by (simp add: storeOf_def)

lemma scenarioA_steps:
  "triggeredWriteSteps ex now stopLossOrder p t
     (tables (storeOf [btcPosition] [stopLossOrder, takeProfitOrder])) =
   [DeletePosition ''BTC'' Long, UpdateOrderStatus ''sl-1'' Triggered,
    UpdateOrderStatus ''tp-1'' Cancelled,
    InsertTrade (closeTradeRow ex now stopLossOrder p t),
    InsertCloseEvent (closeEventRow ex now stopLossOrder p t)]"
  by (simp add: triggeredWriteSteps_def scenarioA_opposite)
     (simp add: stopLossOrder_def takeProfitOrder_def)

lemma scenarioC_findCloseTrade: "findCloseTrade (snapshotOf [] [] []) stopLossOrder = None"
  by (simp add: findCloseTrade_def numeral_3_eq_3 snapshotOf_def)

lemma scenarioC_priceCheck: "\<not> priceCheckRejects (snapshotOf [] [] []) stopLossOrder"
  by (simp add: priceCheckRejects_def snapshotOf_def)

lemma scenarioR_findCloseTrade:
  "findCloseTrade (snapshotOf [] [] [sellAt ''t-9'' 55000 1000010]) stopLossOrder = None"
  by (simp add: findCloseTrade_def numeral_3_eq_3 scenario_defs searchStartTime_def
      timeToleranceMs_def maxTimeWindowMs_def closeTradeFilter_def isCloseTrade_def
      priceMatches_def)

lemma scenarioR_priceCheck:
  "priceCheckRejects (snapshotOf [] [] [sellAt ''t-9'' 55000 1000010]) stopLossOrder"
  by (simp add: priceCheckRejects_def scenario_defs searchStartTime_def timeToleranceMs_def
      isCloseTrade_def later_def priceMatches_def)

lemma selectActive_single:
  "status r = Active \<Longrightarrow> selectActiveOrders (tables (storeOf ps [r])) = [r]"
  by (simp add: selectActiveOrders_def storeOf_def)

lemma cycle_single:
  assumes "status r = Active" and "getPriceOrders ex = Some eos" and "getPositions ex = Some eps"
  shows "checkTriggeredOrders noFaults ex now False (storeOf ps [r]) =
         processOrder noFaults ex now eos eps (storeOf ps [r]) r"
  using assms
  by (simp add: checkTriggeredOrders_def getActiveOrdersFromDB_def query_def noFaults_def
        selectActive_single)

lemma scenarioTwo_findCloseTrade:
  "findCloseTrade (snapshotOf [] [] [sellAt ''t-2'' 48900 1000500, sellAt ''t-1'' 48950 1000010])
     stopLossOrder = Some (sellAt ''t-1'' 48950 1000010)"
  by (simp add: findCloseTrade_def numeral_3_eq_3 scenario_defs searchStartTime_def
      timeToleranceMs_def maxTimeWindowMs_def closeTradeFilter_def isCloseTrade_def earlier_def
      priceMatches_def)

lemma scenarioTwo_priceCheck:
  "\<not> priceCheckRejects
      (snapshotOf [] [] [sellAt ''t-2'' 48900 1000500, sellAt ''t-1'' 48950 1000010]) stopLossOrder"
  by (simp add: priceCheckRejects_def scenario_defs searchStartTime_def timeToleranceMs_def
      isCloseTrade_def later_def priceMatches_def)

section \<open>The transaction of a confirmed trigger\<close>

text \<open>
  Claim C1: when \<open>handleTriggeredOrder\<close> reaches stage 5 (the pre-check passes, a close
  trade is found, the position information is known) and the store executes every
  statement, it runs one transaction whose statements are, in this order: the deletion
  of the position row for the symbol and side, the update of the triggering order to
  triggered, the update of the opposite active order to cancelled (when the ledger holds
  one), the insertion of the close trade, the insertion of the close event; then the
  commit. The deletion of the position is the first write.
\<close>

theorem handleTriggeredOrder_commit_order:
  assumes "\<forall>s. \<not> F s" and "snapshot d = None"
    and "\<not> priceCheckRejects ex order"
    and "findCloseTrade ex order = Some t"
    and "knownPosition order (tables d) = Some p"
  shows "journal (snd (handleTriggeredOrder F ex now order d)) =
           journal d @
           [BeginTransaction,
            DeletePosition (symbol order) (side order),
            UpdateOrderStatus (order_id order) Triggered] @
           (case oppositeAtStep3 order (tables d) of
              None \<Rightarrow> []
            | Some opposite \<Rightarrow> [UpdateOrderStatus (order_id opposite) Cancelled]) @
           [InsertTrade (closeTradeRow ex now order p t),
            InsertCloseEvent (closeEventRow ex now order p t),
            Commit]"
  using assms
  by (simp add: handle_no_faults commitTriggered_ok triggeredWriteSteps_def)

text \<open>
  Scenario A: the stop-loss of the long BTC position at 49000, a sell at 48950 in the
  window, the position row and both protective orders in the ledger.
\<close>

theorem handleTriggeredOrder_commit_order_witness:
  "journal (snd (handleTriggeredOrder noFaults (snapshotOf [] [] [sellAt ''t-1'' 48950 1000010])
      2000000 stopLossOrder (storeOf [btcPosition] [stopLossOrder, takeProfitOrder]))) =
   [BeginTransaction,
    DeletePosition ''BTC'' Long,
    UpdateOrderStatus ''sl-1'' Triggered,
    UpdateOrderStatus ''tp-1'' Cancelled,
    InsertTrade (closeTradeRow (snapshotOf [] [] [sellAt ''t-1'' 48950 1000010]) 2000000
       stopLossOrder btcPosition (sellAt ''t-1'' 48950 1000010)),
    InsertCloseEvent (closeEventRow (snapshotOf [] [] [sellAt ''t-1'' 48950 1000010]) 2000000
       stopLossOrder btcPosition (sellAt ''t-1'' 48950 1000010)),
    Commit]"
proof -
  have "journal (storeOf [btcPosition] [stopLossOrder, takeProfitOrder]) = []"
    by (simp add: storeOf_def)
  moreover have "symbol stopLossOrder = ''BTC''" "side stopLossOrder = Long"
    "order_id stopLossOrder = ''sl-1''" "order_id takeProfitOrder = ''tp-1''"
    by (simp_all add: stopLossOrder_def takeProfitOrder_def)
  ultimately show ?thesis
    using handleTriggeredOrder_commit_order [OF noFaults_all storeOf_snapshot
        scenarioA_priceCheck scenarioA_findCloseTrade scenarioA_knownPosition, of 2000000]
    by (simp add: scenarioA_opposite)
qed

section \<open>Failure inside the transaction\<close>

lemma execute_snapshot:
  "s \<noteq> BeginTransaction \<Longrightarrow> s \<noteq> Commit \<Longrightarrow> s \<noteq> Rollback \<Longrightarrow>
   snapshot (snd (execute F s d)) = snapshot d"
  by (cases s) (simp_all add: execute_def)

lemma cancelOpposite_snapshot: "snapshot (snd (cancelOppositeOrderInDB F order d)) = snapshot d"
  by (simp add: cancelOppositeOrderInDB_def and_then_def query_def ret_def updateOrderStatus_def
        execute_def split: option.splits)

lemma and_then_snapshot:
  assumes "\<And>d. snapshot (snd (m d)) = snapshot d" "\<And>x d. snapshot (snd (f x d)) = snapshot d"
  shows "snapshot (snd (and_then m f d)) = snapshot d"
proof (cases "m d")
  case (Pair r d')
  with assms(1)[of d] have "snapshot d' = snapshot d" by simp
  with Pair assms(2) show ?thesis by (cases r) (simp_all add: and_then_def)
qed

lemma triggeredSteps_snapshot:
  "snapshot (snd (triggeredSteps F ex now order p t d)) = snapshot d"
  unfolding triggeredSteps_def updateOrderStatus_def
  by (intro and_then_snapshot execute_snapshot cancelOpposite_snapshot) simp_all

lemma triggeredSteps_Ok_accepted:
  assumes "fst (triggeredSteps F ex now order p t d) = Ok ()"
  shows "\<forall>s\<in>set (triggeredWriteSteps ex now order p t (tables d)). \<not> F s"
  using assms
  by (auto simp: triggeredSteps_def and_then_def execute_def updateOrderStatus_def
       cancelOppositeOrderInDB_def query_def ret_def triggeredWriteSteps_def
       selectOpposite_after_trigger oppositeAtStep3_after_delete
       simp del: write_ledger.simps split: option.splits if_splits)

lemma commitTriggered_rollback:
  assumes sn: "snapshot d = None" and b: "\<not> F BeginTransaction" and r: "\<not> F Rollback"
    and f: "\<exists>s\<in>set (triggeredWriteSteps ex now order p t (tables d)). F s"
  shows "tables (snd (commitTriggered F ex now order p t d)) =
           (if F (InsertInconsistentState
                    (inconsistentRecord ''price_order_triggered'' now order))
            then tables d
            else (tables d)\<lparr>inconsistent_states := inconsistent_states (tables d) @
                   [inconsistentRecord ''price_order_triggered'' now order]\<rparr>)"
    and "snapshot (snd (commitTriggered F ex now order p t d)) = None"
    and "fst (commitTriggered F ex now order p t d) = Ok ()"
proof -
  define d1 where "d1 = run_stmt BeginTransaction d"
  have bg: "execute F BeginTransaction d = (Ok (), d1)"
    using sn b by (simp add: execute_def d1_def)
  have t1: "tables d1 = tables d" and s1: "snapshot d1 = Some (tables d)"
    by (simp_all add: d1_def)
  obtain r2 d2 where steps: "triggeredSteps F ex now order p t d1 = (r2, d2)"
    by (cases "triggeredSteps F ex now order p t d1")
  have "r2 \<noteq> Ok ()"
    using triggeredSteps_Ok_accepted [of F ex now order p t d1] steps f t1 by auto
  then have r2: "r2 = Threw" by (cases r2) simp_all
  have s2: "snapshot d2 = Some (tables d)"
    using triggeredSteps_snapshot [of F ex now order p t d1] steps s1 by simp
  show "tables (snd (commitTriggered F ex now order p t d)) =
           (if F (InsertInconsistentState
                    (inconsistentRecord ''price_order_triggered'' now order))
            then tables d
            else (tables d)\<lparr>inconsistent_states := inconsistent_states (tables d) @
                   [inconsistentRecord ''price_order_triggered'' now order]\<rparr>)"
    using bg steps r2 s2 r
    by (simp add: commitTriggered_def and_then_def try_catch_def execute_def ret_def)
  show "snapshot (snd (commitTriggered F ex now order p t d)) = None"
    using bg steps r2 s2 r
    by (simp add: commitTriggered_def and_then_def try_catch_def execute_def ret_def)
  show "fst (commitTriggered F ex now order p t d) = Ok ()"
    using bg steps r2 s2 r
    by (simp add: commitTriggered_def and_then_def try_catch_def execute_def ret_def)
qed

text \<open>
  Claim C2, as the code has it: if the store rejects one of the five write steps of the
  transaction (and executes \<open>BEGIN\<close> and \<open>ROLLBACK\<close>), the tables afterwards are
  the tables before the transaction, except that \<open>inconsistent_states\<close> has gained one
  row with \<open>exchange_success = 1\<close> and \<open>db_success = 0\<close> when the store accepts the
  insertion of that row. When the store rejects that insertion too, the failure is only
  logged and the tables are the tables before the transaction.
\<close>

theorem commitTriggered_failure:
  assumes "snapshot d = None" and "\<not> F BeginTransaction" and "\<not> F Rollback"
    and "\<exists>s\<in>set (triggeredWriteSteps ex now order p t (tables d)). F s"
  shows "tables (snd (commitTriggered F ex now order p t d)) =
           (if F (InsertInconsistentState
                    (inconsistentRecord ''price_order_triggered'' now order))
            then tables d
            else (tables d)\<lparr>inconsistent_states := inconsistent_states (tables d) @
                   [inconsistentRecord ''price_order_triggered'' now order]\<rparr>) \<and>
         exchange_success (inconsistentRecord ''price_order_triggered'' now order) = 1 \<and>
         db_success (inconsistentRecord ''price_order_triggered'' now order) = 0 \<and>
         snapshot (snd (commitTriggered F ex now order p t d)) = None"
  using commitTriggered_rollback(1,2) [OF assms]
  by (simp add: inconsistentRecord_def)

text \<open>
  Scenario A with a store that rejects the insertion into \<open>trades\<close>: the position and
  both orders are as before, and the record is there.
\<close>

theorem commitTriggered_failure_witness:
  "rejectTradeInserts (InsertTrade (closeTradeRow (snapshotOf [] [] []) 2000000 stopLossOrder
      btcPosition (sellAt ''t-1'' 48950 1000010))) \<and>
   tables (snd (commitTriggered rejectTradeInserts (snapshotOf [] [] []) 2000000 stopLossOrder
      btcPosition (sellAt ''t-1'' 48950 1000010)
      (storeOf [btcPosition] [stopLossOrder, takeProfitOrder]))) =
   \<lparr>positions = [btcPosition], price_orders = [stopLossOrder, takeProfitOrder], trades = [],
    position_close_events = [],
    inconsistent_states = [inconsistentRecord ''price_order_triggered'' 2000000 stopLossOrder]\<rparr>"
proof -
  have f: "\<exists>s\<in>set (triggeredWriteSteps (snapshotOf [] [] []) 2000000 stopLossOrder btcPosition
       (sellAt ''t-1'' 48950 1000010) (tables (storeOf [btcPosition] [stopLossOrder, takeProfitOrder]))).
     rejectTradeInserts s"
    by (simp add: scenarioA_steps rejectTradeInserts_def)
  have b: "\<not> rejectTradeInserts BeginTransaction" and r: "\<not> rejectTradeInserts Rollback"
    by (simp_all add: rejectTradeInserts_def)
  have i: "\<not> rejectTradeInserts (InsertInconsistentState
      (inconsistentRecord ''price_order_triggered'' 2000000 stopLossOrder))"
    and t: "rejectTradeInserts (InsertTrade (closeTradeRow (snapshotOf [] [] []) 2000000
      stopLossOrder btcPosition (sellAt ''t-1'' 48950 1000010)))"
    by (simp_all add: rejectTradeInserts_def)
  show ?thesis
    using commitTriggered_failure [OF storeOf_snapshot b r f] i t
    by (simp add: storeOf_def)
qed

text \<open>
  Claim C2 as stated fails where the store rejects every insertion: the insertion of the
  close trade fails, the transaction is rolled back, and no record is appended.
\<close>

theorem commitTriggered_failure_counterexample:
  "rejectInserts (InsertTrade (closeTradeRow (snapshotOf [] [] []) 2000000 stopLossOrder
      btcPosition (sellAt ''t-1'' 48950 1000010))) \<and>
   inconsistent_states (tables (snd (commitTriggered rejectInserts (snapshotOf [] [] []) 2000000
      stopLossOrder btcPosition (sellAt ''t-1'' 48950 1000010)
      (storeOf [btcPosition] [stopLossOrder, takeProfitOrder])))) = []"
proof -
  have f: "\<exists>s\<in>set (triggeredWriteSteps (snapshotOf [] [] []) 2000000 stopLossOrder btcPosition
       (sellAt ''t-1'' 48950 1000010) (tables (storeOf [btcPosition] [stopLossOrder, takeProfitOrder]))).
     rejectInserts s"
    by (simp add: scenarioA_steps rejectInserts_def)
  have b: "\<not> rejectInserts BeginTransaction" and r: "\<not> rejectInserts Rollback"
    by (simp_all add: rejectInserts_def)
  have i: "rejectInserts (InsertInconsistentState
      (inconsistentRecord ''price_order_triggered'' 2000000 stopLossOrder))"
    and t: "rejectInserts (InsertTrade (closeTradeRow (snapshotOf [] [] []) 2000000
      stopLossOrder btcPosition (sellAt ''t-1'' 48950 1000010)))"
    by (simp_all add: rejectInserts_def)
  show ?thesis
    using commitTriggered_rollback(1) [OF storeOf_snapshot b r f] i t
    by (simp add: storeOf_def)
qed

section \<open>Order and position gone, no trade found\<close>

text \<open>
  Claim C3, as the code has it: for an active order whose id is absent from the
  exchange's order list and whose contract has no position on the exchange, when the
  trade search finds no close trade, the pre-check of \<open>handleTriggeredOrder\<close> does not
  reject the order and the store executes every statement, the monitor deletes the
  position row, appends one row to \<open>inconsistent_states\<close> with \<open>exchange_success = 1\<close>
  and \<open>db_success = 0\<close>, and inserts neither a trade nor a close event.
\<close>

theorem processOrder_triggered_no_trade:
  assumes "\<forall>s. \<not> F s" and "snapshot d = None"
    and "order_id dbOrder \<notin> set (exchangeOrderIds eos)"
    and "normalizeContract ex (symbol dbOrder) \<notin> set (exchangePositionContracts eps)"
    and "getPositions ex = Some eps"
    and "findCloseTrade ex dbOrder = None"
    and "\<not> priceCheckRejects ex dbOrder"
  shows "positions (tables (processOrder F ex now eos eps d dbOrder)) =
           filter (\<lambda>p. \<not> (pos_symbol p = symbol dbOrder \<and> pos_side p = side dbOrder))
             (positions (tables d)) \<and>
         inconsistent_states (tables (processOrder F ex now eos eps d dbOrder)) =
           inconsistent_states (tables d) @
           [inconsistentRecord ''price_order_triggered_no_trade'' now dbOrder] \<and>
         exchange_success (inconsistentRecord ''price_order_triggered_no_trade'' now dbOrder) = 1 \<and>
         db_success (inconsistentRecord ''price_order_triggered_no_trade'' now dbOrder) = 0 \<and>
         trades (tables (processOrder F ex now eos eps d dbOrder)) = trades (tables d) \<and>
         position_close_events (tables (processOrder F ex now eos eps d dbOrder)) =
           position_close_events (tables d)"
proof -
  have "processOrder F ex now eos eps d dbOrder = snd (recordTriggeredNoTrade F now dbOrder d)"
    using assms not_in_contracts_not_exists [OF assms(4)]
    by (simp add: processOrder_def checkOrder_gone handle_no_faults)
  then show ?thesis
    using assms(1,2)
    by (simp add: recordTriggeredNoTrade_ok write_all_noTrade_positions
          write_all_noTrade_inconsistent write_all_noTrade_trades write_all_noTrade_events
          inconsistentRecord_def)
qed

text \<open>Scenario C: the stop-loss order, nothing on the exchange.\<close>

theorem processOrder_triggered_no_trade_witness:
  "positions (tables (processOrder noFaults (snapshotOf [] [] []) 2000000 [] []
      (storeOf [btcPosition] [stopLossOrder]) stopLossOrder)) = [] \<and>
   inconsistent_states (tables (processOrder noFaults (snapshotOf [] [] []) 2000000 [] []
      (storeOf [btcPosition] [stopLossOrder]) stopLossOrder)) =
      [inconsistentRecord ''price_order_triggered_no_trade'' 2000000 stopLossOrder] \<and>
   trades (tables (processOrder noFaults (snapshotOf [] [] []) 2000000 [] []
      (storeOf [btcPosition] [stopLossOrder]) stopLossOrder)) = [] \<and>
   position_close_events (tables (processOrder noFaults (snapshotOf [] [] []) 2000000 [] []
      (storeOf [btcPosition] [stopLossOrder]) stopLossOrder)) = []"
proof -
  have a: "order_id stopLossOrder \<notin> set (exchangeOrderIds [])"
    by (simp add: exchangeOrderIds_def)
  have b: "normalizeContract (snapshotOf [] [] []) (symbol stopLossOrder)
      \<notin> set (exchangePositionContracts [])"
    by (simp add: exchangePositionContracts_def)
  have c: "getPositions (snapshotOf [] [] []) = Some []"
    by (simp add: snapshotOf_def)
  have "positions (tables (storeOf [btcPosition] [stopLossOrder])) = [btcPosition]"
    "inconsistent_states (tables (storeOf [btcPosition] [stopLossOrder])) = []"
    "trades (tables (storeOf [btcPosition] [stopLossOrder])) = []"
    "position_close_events (tables (storeOf [btcPosition] [stopLossOrder])) = []"
    by (simp_all add: storeOf_def)
  moreover have "pos_symbol btcPosition = symbol stopLossOrder"
    "pos_side btcPosition = side stopLossOrder"
    by (simp_all add: btcPosition_def stopLossOrder_def)
  ultimately show ?thesis
    using processOrder_triggered_no_trade [OF noFaults_all
        storeOf_snapshot [of "[btcPosition]" "[stopLossOrder]"] a b c
        scenarioC_findCloseTrade scenarioC_priceCheck, where now = 2000000]
    by simp
qed

text \<open>
  Claim C3 as stated fails where the pre-check rejects the order. The exchange holds
  neither the order nor the position; its history has one sell at 55000 after the order
  was created. The search of \<open>findCloseTrade\<close> finds no trade that matches the trigger
  49000, and the pre-check, which looks at the latest close-direction trade, makes
  \<open>handleTriggeredOrder\<close> return at once: the cycle leaves the store as it was, the
  position row included.
\<close>

theorem checkTriggeredOrders_price_mismatch_counterexample:
  "order_id stopLossOrder \<notin> set (exchangeOrderIds []) \<and>
   normalizeContract (snapshotOf [] [] [sellAt ''t-9'' 55000 1000010]) (symbol stopLossOrder)
      \<notin> set (exchangePositionContracts []) \<and>
   findCloseTrade (snapshotOf [] [] [sellAt ''t-9'' 55000 1000010]) stopLossOrder = None \<and>
   checkTriggeredOrders noFaults (snapshotOf [] [] [sellAt ''t-9'' 55000 1000010]) 2000000 False
      (storeOf [btcPosition] [stopLossOrder]) = storeOf [btcPosition] [stopLossOrder]"
proof -
  have a: "order_id stopLossOrder \<notin> set (exchangeOrderIds [])"
    by (simp add: exchangeOrderIds_def)
  have b: "normalizeContract (snapshotOf [] [] [sellAt ''t-9'' 55000 1000010])
      (symbol stopLossOrder) \<notin> set (exchangePositionContracts [])"
    by (simp add: exchangePositionContracts_def)
  have "checkTriggeredOrders noFaults (snapshotOf [] [] [sellAt ''t-9'' 55000 1000010]) 2000000
      False (storeOf [btcPosition] [stopLossOrder]) =
      processOrder noFaults (snapshotOf [] [] [sellAt ''t-9'' 55000 1000010]) 2000000 [] []
        (storeOf [btcPosition] [stopLossOrder]) stopLossOrder"
    by (rule cycle_single) (simp_all add: stopLossOrder_def snapshotOf_def)
  also have "\<dots> = storeOf [btcPosition] [stopLossOrder]"
    using scenarioR_priceCheck
    by (simp add: processOrder_def checkOrder_gone [OF a b] handleTriggeredOrder_def ret_def)
  finally show ?thesis
    using a b scenarioR_findCloseTrade by simp
qed

section \<open>What is written when a position is deleted\<close>

text \<open>
  Claim C4, as the code has it: when the store executes every statement and
  \<open>handleTriggeredOrder\<close> deletes a position row, it has taken one of two paths. On
  the path with a close trade and known position information it appends exactly one
  trade row of type close and exactly one close event; the event carries the id of the
  triggering order as \<open>trigger_order_id\<close> and the id of the exchange trade as
  \<open>close_trade_id\<close>, and both rows carry the same \<open>order_id\<close>. On the path without
  any close trade it appends neither, and appends one row to \<open>inconsistent_states\<close>
  instead.
\<close>

theorem handleTriggeredOrder_position_deleted:
  assumes "\<forall>s. \<not> F s" and "snapshot d = None"
    and "positions (tables (snd (handleTriggeredOrder F ex now order d))) \<noteq> positions (tables d)"
  shows "(\<exists>t p. findCloseTrade ex order = Some t \<and> knownPosition order (tables d) = Some p \<and>
            trades (tables (snd (handleTriggeredOrder F ex now order d))) =
              trades (tables d) @ [closeTradeRow ex now order p t] \<and>
            tr_type (closeTradeRow ex now order p t) = CloseTrade \<and>
            position_close_events (tables (snd (handleTriggeredOrder F ex now order d))) =
              position_close_events (tables d) @ [closeEventRow ex now order p t] \<and>
            trigger_order_id (closeEventRow ex now order p t) = order_id order \<and>
            close_trade_id (closeEventRow ex now order p t) = trade_id t \<and>
            ce_order_id (closeEventRow ex now order p t) =
              tr_order_id (closeTradeRow ex now order p t) \<and>
            inconsistent_states (tables (snd (handleTriggeredOrder F ex now order d))) =
              inconsistent_states (tables d)) \<or>
         (findCloseTrade ex order = None \<and>
            trades (tables (snd (handleTriggeredOrder F ex now order d))) = trades (tables d) \<and>
            position_close_events (tables (snd (handleTriggeredOrder F ex now order d))) =
              position_close_events (tables d) \<and>
            inconsistent_states (tables (snd (handleTriggeredOrder F ex now order d))) =
              inconsistent_states (tables d) @
              [inconsistentRecord ''price_order_triggered_no_trade'' now order])"
proof (cases "findCloseTrade ex order")
  case None
  with assms show ?thesis
    by (auto simp: handle_no_faults markCancelled_ok recordTriggeredNoTrade_ok
          write_all_noTrade_trades write_all_noTrade_events write_all_noTrade_inconsistent
          split: if_splits option.splits)
next
  case (Some t)
  show ?thesis
  proof (cases "knownPosition order (tables d)")
    case None
    with Some assms show ?thesis
      by (simp add: handle_no_faults markTriggeredOnly_ok write_all_status_positions
            split: if_splits)
  next
    case (Some p)
    with \<open>findCloseTrade ex order = Some t\<close> assms show ?thesis
      by (simp add: handle_no_faults commitTriggered_ok write_all_triggered_trades
            write_all_triggered_events write_all_triggered_inconsistent
            closeTradeRow_def closeEventRow_def split: if_splits)
  qed
qed

text \<open>Scenario A: the position row goes, one trade row and one close event come.\<close>

theorem handleTriggeredOrder_position_deleted_witness:
  "positions (tables (snd (handleTriggeredOrder noFaults
      (snapshotOf [] [] [sellAt ''t-1'' 48950 1000010]) 2000000 stopLossOrder
      (storeOf [btcPosition] [stopLossOrder, takeProfitOrder]))))
     \<noteq> positions (tables (storeOf [btcPosition] [stopLossOrder, takeProfitOrder])) \<and>
   trades (tables (snd (handleTriggeredOrder noFaults
      (snapshotOf [] [] [sellAt ''t-1'' 48950 1000010]) 2000000 stopLossOrder
      (storeOf [btcPosition] [stopLossOrder, takeProfitOrder])))) =
     [closeTradeRow (snapshotOf [] [] [sellAt ''t-1'' 48950 1000010]) 2000000 stopLossOrder
        btcPosition (sellAt ''t-1'' 48950 1000010)] \<and>
   position_close_events (tables (snd (handleTriggeredOrder noFaults
      (snapshotOf [] [] [sellAt ''t-1'' 48950 1000010]) 2000000 stopLossOrder
      (storeOf [btcPosition] [stopLossOrder, takeProfitOrder])))) =
     [closeEventRow (snapshotOf [] [] [sellAt ''t-1'' 48950 1000010]) 2000000 stopLossOrder
        btcPosition (sellAt ''t-1'' 48950 1000010)]"
proof -
  have del: "positions (tables (snd (handleTriggeredOrder noFaults
      (snapshotOf [] [] [sellAt ''t-1'' 48950 1000010]) 2000000 stopLossOrder
      (storeOf [btcPosition] [stopLossOrder, takeProfitOrder]))))
     \<noteq> positions (tables (storeOf [btcPosition] [stopLossOrder, takeProfitOrder]))"
    using noFaults_all scenarioA_priceCheck
    by (simp add: handle_no_faults scenarioA_findCloseTrade scenarioA_knownPosition
          commitTriggered_ok storeOf_snapshot write_all_triggered_positions)
       (simp add: storeOf_def btcPosition_def stopLossOrder_def)
  have "trades (tables (storeOf [btcPosition] [stopLossOrder, takeProfitOrder])) = []"
    "position_close_events (tables (storeOf [btcPosition] [stopLossOrder, takeProfitOrder])) = []"
    by (simp_all add: storeOf_def)
  then show ?thesis
    using handleTriggeredOrder_position_deleted [OF noFaults_all storeOf_snapshot del] del
    by (simp add: scenarioA_findCloseTrade scenarioA_knownPosition)
qed

text \<open>
  Claim C4 as stated fails on the path without a trade. In scenario C (the stop-loss
  order, nothing on the exchange) one cycle deletes the position row, and afterwards
  there is no trade row and no close event at all.
\<close>

theorem checkTriggeredOrders_no_trade_counterexample:
  "positions (tables (storeOf [btcPosition] [stopLossOrder])) = [btcPosition] \<and>
   positions (tables (checkTriggeredOrders noFaults (snapshotOf [] [] []) 2000000 False
      (storeOf [btcPosition] [stopLossOrder]))) = [] \<and>
   trades (tables (checkTriggeredOrders noFaults (snapshotOf [] [] []) 2000000 False
      (storeOf [btcPosition] [stopLossOrder]))) = [] \<and>
   position_close_events (tables (checkTriggeredOrders noFaults (snapshotOf [] [] []) 2000000
      False (storeOf [btcPosition] [stopLossOrder]))) = []"
proof -
  have a: "order_id stopLossOrder \<notin> set (exchangeOrderIds [])"
    by (simp add: exchangeOrderIds_def)
  have b: "normalizeContract (snapshotOf [] [] []) (symbol stopLossOrder)
      \<notin> set (exchangePositionContracts [])"
    by (simp add: exchangePositionContracts_def)
  have cyc: "checkTriggeredOrders noFaults (snapshotOf [] [] []) 2000000 False
      (storeOf [btcPosition] [stopLossOrder]) =
      processOrder noFaults (snapshotOf [] [] []) 2000000 [] []
        (storeOf [btcPosition] [stopLossOrder]) stopLossOrder"
    by (rule cycle_single) (simp_all add: stopLossOrder_def snapshotOf_def)
  have run: "processOrder noFaults (snapshotOf [] [] []) 2000000 [] []
        (storeOf [btcPosition] [stopLossOrder]) stopLossOrder =
      snd (recordTriggeredNoTrade noFaults 2000000 stopLossOrder
        (storeOf [btcPosition] [stopLossOrder]))"
    using noFaults_all scenarioC_priceCheck not_in_contracts_not_exists [OF b]
    by (simp add: processOrder_def checkOrder_gone [OF a b] handle_no_faults
          scenarioC_findCloseTrade)
       (simp add: snapshotOf_def)
  show ?thesis
    using noFaults_all
    by (simp add: cyc run recordTriggeredNoTrade_ok storeOf_snapshot
          write_all_noTrade_positions write_all_noTrade_trades write_all_noTrade_events)
       (simp add: storeOf_def btcPosition_def stopLossOrder_def)
qed

section \<open>An order that vanished while its position stays\<close>

lemma checkOrder_position_present_no_trade:
  assumes "order_id dbOrder \<notin> set (exchangeOrderIds eos)"
    and "normalizeContract ex (symbol dbOrder) \<in> set (exchangePositionContracts eps)"
    and "repairTarget ex eos dbOrder = None"
    and "findCloseTrade ex dbOrder = None"
  shows "checkOrder F ex now eos eps dbOrder d = (Ok (), d)"
  using assms by (simp add: checkOrder_def repairOrderId_def and_then_def ret_def)

text \<open>
  Claim C5 at scenario B: the ledger holds the long BTC position and its take-profit
  order; the exchange lists no conditional order, still reports the position with size
  1, and has no trade. The claim asks for the order to be set to cancelled. One cycle of
  the monitor leaves the store as it was: the order stays active. (The branch of
  \<open>handleTriggeredOrder\<close> that sets such an order to cancelled is not reached, since
  \<open>checkTriggeredOrders\<close> calls it for an order with a position only after it has
  found a close trade.)
\<close>

theorem checkTriggeredOrders_leaves_cancelled_order_active:
  "checkTriggeredOrders noFaults
     (snapshotOf [] [\<lparr>ep_contract = ''BTC_USDT'', ep_size = 1\<rparr>] []) 2000000 False
     (storeOf [btcPosition] [takeProfitOrder]) = storeOf [btcPosition] [takeProfitOrder] \<and>
   status takeProfitOrder = Active"
proof -
  have a: "order_id takeProfitOrder \<notin> set (exchangeOrderIds [])"
    by (simp add: exchangeOrderIds_def)
  have b: "normalizeContract (snapshotOf [] [\<lparr>ep_contract = ''BTC_USDT'', ep_size = 1\<rparr>] [])
      (symbol takeProfitOrder)
      \<in> set (exchangePositionContracts [\<lparr>ep_contract = ''BTC_USDT'', ep_size = 1\<rparr>])"
    by (simp add: exchangePositionContracts_def snapshotOf_def takeProfitOrder_def)
  have c: "findCloseTrade (snapshotOf [] [\<lparr>ep_contract = ''BTC_USDT'', ep_size = 1\<rparr>] [])
      takeProfitOrder = None"
    by (simp add: findCloseTrade_def numeral_3_eq_3 snapshotOf_def)
  have "checkTriggeredOrders noFaults
     (snapshotOf [] [\<lparr>ep_contract = ''BTC_USDT'', ep_size = 1\<rparr>] []) 2000000 False
     (storeOf [btcPosition] [takeProfitOrder]) =
     processOrder noFaults (snapshotOf [] [\<lparr>ep_contract = ''BTC_USDT'', ep_size = 1\<rparr>] [])
       2000000 [] [\<lparr>ep_contract = ''BTC_USDT'', ep_size = 1\<rparr>]
       (storeOf [btcPosition] [takeProfitOrder]) takeProfitOrder"
    by (rule cycle_single) (simp_all add: takeProfitOrder_def snapshotOf_def)
  also have "\<dots> = storeOf [btcPosition] [takeProfitOrder]"
    by (simp add: processOrder_def checkOrder_position_present_no_trade [OF a b _ c]
          repairTarget_def)
  finally show ?thesis
    by (simp add: takeProfitOrder_def)
qed

section \<open>The trade that the search returns\<close>

lemma foldl_earlier_in: "foldl earlier x xs \<in> set (x # xs)"
  by (induction xs arbitrary: x) (auto simp: earlier_def)

lemma foldl_earlier_le_init: "trade_timestamp (foldl earlier x xs) \<le> trade_timestamp x"
proof (induction xs arbitrary: x)
  case Nil show ?case by simp
next
  case (Cons y ys)
  have "trade_timestamp (foldl earlier (earlier x y) ys) \<le> trade_timestamp (earlier x y)"
    by (rule Cons.IH)
  also have "\<dots> \<le> trade_timestamp x" by (simp add: earlier_def)
  finally show ?case by simp
qed

lemma foldl_earlier_le:
  "u \<in> set (x # xs) \<Longrightarrow> trade_timestamp (foldl earlier x xs) \<le> trade_timestamp u"
proof (induction xs arbitrary: x)
  case Nil then show ?case by simp
next
  case (Cons y ys)
  have init: "trade_timestamp (foldl earlier (earlier x y) ys) \<le> trade_timestamp (earlier x y)"
    by (rule foldl_earlier_le_init)
  have e: "trade_timestamp (earlier x y) \<le> trade_timestamp x"
    "trade_timestamp (earlier x y) \<le> trade_timestamp y"
    by (simp_all add: earlier_def)
  from Cons.prems consider "u = x" | "u = y" | "u \<in> set ys" by auto
  then show ?case
  proof cases
    case 1 with init e show ?thesis by simp
  next
    case 2 with init e show ?thesis by simp
  next
    case 3
    then have "u \<in> set (earlier x y # ys)" by simp
    from Cons.IH [OF this] show ?thesis by simp
  qed
qed

lemma reduce_earlier:
  "reduce earlier xs = Some t \<Longrightarrow>
   t \<in> set xs \<and> (\<forall>u\<in>set xs. trade_timestamp t \<le> trade_timestamp u)"
  using foldl_earlier_in foldl_earlier_le by (cases xs) auto

lemma findCloseTrade_attempts_Some:
  "findCloseTrade_attempts ex order n = Some t \<Longrightarrow>
   \<exists>fetched.
     getMyTrades ex (normalizeContract ex (symbol order)) 500 (searchStartTime order) = Some fetched \<and>
     reduce earlier (filter (closeTradeFilter order) fetched) = Some t"
  by (induction n) (auto split: option.splits)

lemma closeTradeFilter_window:
  "closeTradeFilter order t \<Longrightarrow> searchStartTime order \<le> trade_timestamp t"
  by (simp add: closeTradeFilter_def split: if_splits)

text \<open>
  Claim C8: a trade that \<open>findCloseTrade\<close> returns is one of the trades the exchange
  answered with, passes the filter (time window from 5 seconds before the creation of
  the order, direction, price), and no trade of that answer that passes the filter has
  an earlier timestamp. When \<open>handleTriggeredOrder\<close> then commits (the pre-check
  passes, the position information is known, the store executes every statement), the
  close trade row and the close event it appends carry the price of that trade.
\<close>

theorem findCloseTrade_earliest:
  assumes "findCloseTrade ex order = Some t"
  shows "\<exists>fetched.
           getMyTrades ex (normalizeContract ex (symbol order)) 500 (searchStartTime order)
             = Some fetched \<and>
           t \<in> set fetched \<and> closeTradeFilter order t \<and>
           created_at order - 5000 \<le> trade_timestamp t \<and>
           (\<forall>u\<in>set fetched. closeTradeFilter order u \<longrightarrow> trade_timestamp t \<le> trade_timestamp u) \<and>
           (\<forall>F now d p.
              (\<forall>s. \<not> F s) \<and> snapshot d = None \<and> \<not> priceCheckRejects ex order \<and>
              knownPosition order (tables d) = Some p \<longrightarrow>
              (\<exists>tr ev.
                 trades (tables (snd (handleTriggeredOrder F ex now order d))) =
                   trades (tables d) @ [tr] \<and>
                 position_close_events (tables (snd (handleTriggeredOrder F ex now order d))) =
                   position_close_events (tables d) @ [ev] \<and>
                 tr_type tr = CloseTrade \<and> tr_price tr = trade_price t \<and>
                 close_price ev = trade_price t))"
proof -
  from assms obtain fetched where
    f: "getMyTrades ex (normalizeContract ex (symbol order)) 500 (searchStartTime order)
          = Some fetched"
    and r: "reduce earlier (filter (closeTradeFilter order) fetched) = Some t"
    unfolding findCloseTrade_def by (blast dest: findCloseTrade_attempts_Some)
  from reduce_earlier [OF r] have m: "t \<in> set fetched" "closeTradeFilter order t"
    and least: "\<forall>u\<in>set fetched. closeTradeFilter order u \<longrightarrow> trade_timestamp t \<le> trade_timestamp u"
    by auto
  have w: "created_at order - 5000 \<le> trade_timestamp t"
    using closeTradeFilter_window [OF m(2)] by (simp add: searchStartTime_def timeToleranceMs_def)
  have rows: "\<exists>tr ev.
                 trades (tables (snd (handleTriggeredOrder F ex now order d))) =
                   trades (tables d) @ [tr] \<and>
                 position_close_events (tables (snd (handleTriggeredOrder F ex now order d))) =
                   position_close_events (tables d) @ [ev] \<and>
                 tr_type tr = CloseTrade \<and> tr_price tr = trade_price t \<and>
                 close_price ev = trade_price t"
    if "\<forall>s. \<not> F s" "snapshot d = None" "\<not> priceCheckRejects ex order"
      "knownPosition order (tables d) = Some p" for F now d p
  proof (intro exI conjI)
    show "trades (tables (snd (handleTriggeredOrder F ex now order d))) =
            trades (tables d) @ [closeTradeRow ex now order p t]"
      using that assms
      by (simp add: handle_no_faults commitTriggered_ok write_all_triggered_trades)
    show "position_close_events (tables (snd (handleTriggeredOrder F ex now order d))) =
            position_close_events (tables d) @ [closeEventRow ex now order p t]"
      using that assms
      by (simp add: handle_no_faults commitTriggered_ok write_all_triggered_events)
  qed (simp_all add: closeTradeRow_def closeEventRow_def)
  from f m w least rows show ?thesis by blast
qed

text \<open>
  Two sells pass the filter of the stop-loss order: one at 48900, 500 ms after the
  creation of the order, listed first, and one at 48950, 10 ms after it. The search
  returns the second, and 48950 is the price of both rows.
\<close>

theorem findCloseTrade_earliest_witness:
  "findCloseTrade (snapshotOf [] [] [sellAt ''t-2'' 48900 1000500, sellAt ''t-1'' 48950 1000010])
     stopLossOrder = Some (sellAt ''t-1'' 48950 1000010) \<and>
   closeTradeFilter stopLossOrder (sellAt ''t-2'' 48900 1000500) \<and>
   closeTradeFilter stopLossOrder (sellAt ''t-1'' 48950 1000010) \<and>
   trade_timestamp (sellAt ''t-1'' 48950 1000010) \<le> trade_timestamp (sellAt ''t-2'' 48900 1000500) \<and>
   (\<exists>tr ev.
      trades (tables (snd (handleTriggeredOrder noFaults
        (snapshotOf [] [] [sellAt ''t-2'' 48900 1000500, sellAt ''t-1'' 48950 1000010]) 2000000
        stopLossOrder (storeOf [btcPosition] [stopLossOrder, takeProfitOrder])))) = [tr] \<and>
      position_close_events (tables (snd (handleTriggeredOrder noFaults
        (snapshotOf [] [] [sellAt ''t-2'' 48900 1000500, sellAt ''t-1'' 48950 1000010]) 2000000
        stopLossOrder (storeOf [btcPosition] [stopLossOrder, takeProfitOrder])))) = [ev] \<and>
      tr_price tr = 48950 \<and> close_price ev = 48950)"
proof -
  let ?ex = "snapshotOf [] [] [sellAt ''t-2'' 48900 1000500, sellAt ''t-1'' 48950 1000010]"
  let ?d = "storeOf [btcPosition] [stopLossOrder, takeProfitOrder]"
  from findCloseTrade_earliest [OF scenarioTwo_findCloseTrade] obtain fetched where
    f: "getMyTrades ?ex (normalizeContract ?ex (symbol stopLossOrder)) 500
          (searchStartTime stopLossOrder) = Some fetched"
    and m: "closeTradeFilter stopLossOrder (sellAt ''t-1'' 48950 1000010)"
    and least: "\<forall>u\<in>set fetched. closeTradeFilter stopLossOrder u \<longrightarrow>
        trade_timestamp (sellAt ''t-1'' 48950 1000010) \<le> trade_timestamp u"
    and rows: "\<forall>F now d p.
              (\<forall>s. \<not> F s) \<and> snapshot d = None \<and> \<not> priceCheckRejects ?ex stopLossOrder \<and>
              knownPosition stopLossOrder (tables d) = Some p \<longrightarrow>
              (\<exists>tr ev.
                 trades (tables (snd (handleTriggeredOrder F ?ex now stopLossOrder d))) =
                   trades (tables d) @ [tr] \<and>
                 position_close_events (tables (snd (handleTriggeredOrder F ?ex now stopLossOrder d))) =
                   position_close_events (tables d) @ [ev] \<and>
                 tr_type tr = CloseTrade \<and>
                 tr_price tr = trade_price (sellAt ''t-1'' 48950 1000010) \<and>
                 close_price ev = trade_price (sellAt ''t-1'' 48950 1000010))"
    by blast
  have fetched: "fetched = [sellAt ''t-2'' 48900 1000500, sellAt ''t-1'' 48950 1000010]"
    using f by (simp add: scenario_defs searchStartTime_def timeToleranceMs_def)
  have two: "closeTradeFilter stopLossOrder (sellAt ''t-2'' 48900 1000500)"
    by (simp add: scenario_defs searchStartTime_def
      timeToleranceMs_def maxTimeWindowMs_def closeTradeFilter_def isCloseTrade_def
      priceMatches_def)
  have le: "trade_timestamp (sellAt ''t-1'' 48950 1000010)
      \<le> trade_timestamp (sellAt ''t-2'' 48900 1000500)"
    using least two by (simp add: fetched)
  have e: "trades (tables ?d) = []" "position_close_events (tables ?d) = []"
    by (simp_all add: storeOf_def)
  have tp: "trade_price (sellAt ''t-1'' 48950 1000010) = 48950"
    by (simp add: sellAt_def)
  have "\<exists>tr ev.
      trades (tables (snd (handleTriggeredOrder noFaults ?ex 2000000 stopLossOrder ?d))) = [tr] \<and>
      position_close_events (tables (snd (handleTriggeredOrder noFaults ?ex 2000000
        stopLossOrder ?d))) = [ev] \<and>
      tr_price tr = 48950 \<and> close_price ev = 48950"
    using rows [rule_format, of noFaults ?d btcPosition 2000000]
      noFaults_all storeOf_snapshot scenarioTwo_priceCheck scenarioA_knownPosition e tp
    by auto
  with scenarioTwo_findCloseTrade m two le show ?thesis by simp
qed

section \<open>A second cycle against the same snapshot\<close>

text \<open>
  After a cycle, every order that is still active is quiet: it is listed by the
  exchange, or the loop body ends for it before any write. The proof follows the rows of
  \<open>price_orders\<close> through the loop: a row changes only in id and status, never back
  to active, and the order a step of the loop is through with is no longer active, or
  carries a listed id, or is quiet.
\<close>

subsection \<open>The loop body when the store executes every statement\<close>




subsection \<open>Quiet orders\<close>













subsection \<open>How the rows of the orders change\<close>













subsection \<open>One order of the loop\<close>

lemma opposite_steps_benign:
  "\<forall>s\<in>set (case opp of None \<Rightarrow> [] | Some r \<Rightarrow> [UpdateOrderStatus (order_id r) Cancelled]).
     (\<forall>new_id old_id. s \<noteq> UpdateOrderId new_id old_id) \<and>
     (\<forall>oid. s \<noteq> UpdateOrderStatus oid Active)"
  by (auto split: option.splits)










subsection \<open>The whole loop\<close>











section \<open>When the identifier repair can run\<close>

lemma journals_only_ret: "journals_only P (ret x)"
  by (simp add: journals_only_def ret_def)

lemma journals_only_throw: "journals_only P throw"
  by (simp add: journals_only_def throw_def)

lemma journals_only_query: "journals_only P (query F s f)"
  by (simp add: journals_only_def query_def)

lemma journals_only_execute: "P s \<Longrightarrow> journals_only P (execute F s)"
  by (cases s) (simp_all add: journals_only_def execute_def)

lemma journals_only_and_then:
  assumes m: "journals_only P m" and f: "\<And>x. journals_only P (f x)"
  shows "journals_only P (and_then m f)"
  unfolding journals_only_def
proof
  fix d
  obtain r d' where md: "m d = (r, d')" by (cases "m d")
  from m obtain js where js: "journal d' = journal d @ js" "\<forall>s\<in>set js. P s"
    using md unfolding journals_only_def by (metis snd_conv)
  show "\<exists>js. journal (snd (and_then m f d)) = journal d @ js \<and> (\<forall>s\<in>set js. P s)"
  proof (cases r)
    case Threw
    with md js show ?thesis by (auto simp: and_then_def)
  next
    case (Ok x)
    from f [of x] obtain ks where ks: "journal (snd (f x d')) = journal d' @ ks" "\<forall>s\<in>set ks. P s"
      unfolding journals_only_def by blast
    have "journal (snd (and_then m f d)) = journal d @ (js @ ks)"
      using md Ok js ks by (simp add: and_then_def)
    moreover have "\<forall>s\<in>set (js @ ks). P s" using js ks by auto
    ultimately show ?thesis by blast
  qed
qed

lemma journals_only_try_catch:
  assumes m: "journals_only P m" and h: "journals_only P h"
  shows "journals_only P (try_catch m h)"
  unfolding journals_only_def
proof
  fix d
  obtain r d' where md: "m d = (r, d')" by (cases "m d")
  from m obtain js where js: "journal d' = journal d @ js" "\<forall>s\<in>set js. P s"
    using md unfolding journals_only_def by (metis snd_conv)
  show "\<exists>js. journal (snd (try_catch m h d)) = journal d @ js \<and> (\<forall>s\<in>set js. P s)"
  proof (cases r)
    case (Ok x)
    with md js show ?thesis by (auto simp: try_catch_def)
  next
    case Threw
    from h obtain ks where ks: "journal (snd (h d')) = journal d' @ ks" "\<forall>s\<in>set ks. P s"
      unfolding journals_only_def by blast
    have "journal (snd (try_catch m h d)) = journal d @ (js @ ks)"
      using md Threw js ks by (simp add: try_catch_def)
    moreover have "\<forall>s\<in>set (js @ ks). P s" using js ks by auto
    ultimately show ?thesis by blast
  qed
qed

lemmas journals_only_intros =
  journals_only_ret journals_only_throw journals_only_query journals_only_execute
  journals_only_and_then journals_only_try_catch

lemma isUpdateOrderId_simps:
  "\<not> isUpdateOrderId BeginTransaction" "\<not> isUpdateOrderId Commit" "\<not> isUpdateOrderId Rollback"
  "\<not> isUpdateOrderId (DeletePosition sy sd)" "\<not> isUpdateOrderId (UpdateOrderStatus oid st)"
  "\<not> isUpdateOrderId (InsertTrade tr)" "\<not> isUpdateOrderId (InsertCloseEvent ev)"
  "\<not> isUpdateOrderId (InsertInconsistentState i)"
  "isUpdateOrderId (UpdateOrderId new_id old_id)"
  by (simp_all add: isUpdateOrderId_def)

lemma cancelOpposite_journals:
  "journals_only (\<lambda>s. \<not> isUpdateOrderId s) (cancelOppositeOrderInDB F order)"
  unfolding cancelOppositeOrderInDB_def updateOrderStatus_def
  by (auto simp: isUpdateOrderId_simps intro!: journals_only_intros split: option.splits)

lemma handleTriggeredOrder_journals:
  "journals_only (\<lambda>s. \<not> isUpdateOrderId s) (handleTriggeredOrder F ex now order)"
  unfolding handleTriggeredOrder_def getPositionInfo_def findOpenTrade_def markCancelled_def
    recordTriggeredNoTrade_def commitTriggered_def triggeredSteps_def updateOrderStatus_def
  by (auto simp: isUpdateOrderId_simps intro!: journals_only_intros cancelOpposite_journals
        split: option.splits)

lemma checkOrder_no_position:
  assumes "normalizeContract ex (symbol dbOrder) \<notin> set (exchangePositionContracts eps)"
  shows "checkOrder F ex now eos eps dbOrder =
     (if order_id dbOrder \<in> set (exchangeOrderIds eos) then ret ()
      else handleTriggeredOrder F ex now dbOrder)"
  using assms by (auto simp: checkOrder_def and_then_def ret_def)

text \<open>
  Claim C10: for an order whose contract has no position of nonzero size on the
  exchange, the loop body executes no rewrite of an order id, whatever the store
  rejects; and when the id of the order is absent from the exchange's order list as
  well, the loop body is \<open>handleTriggeredOrder\<close> on the order as it was read.
\<close>

theorem checkOrder_without_position:
  assumes "normalizeContract ex (symbol dbOrder) \<notin> set (exchangePositionContracts eps)"
  shows "(\<exists>js. journal (snd (checkOrder F ex now eos eps dbOrder d)) = journal d @ js \<and>
               (\<forall>new_id old_id. UpdateOrderId new_id old_id \<notin> set js)) \<and>
         (order_id dbOrder \<notin> set (exchangeOrderIds eos) \<longrightarrow>
            checkOrder F ex now eos eps dbOrder d = handleTriggeredOrder F ex now dbOrder d)"
proof -
  have "journals_only (\<lambda>s. \<not> isUpdateOrderId s) (checkOrder F ex now eos eps dbOrder)"
    by (simp add: checkOrder_no_position [OF assms] journals_only_ret
          handleTriggeredOrder_journals)
  then obtain js where js: "journal (snd (checkOrder F ex now eos eps dbOrder d)) = journal d @ js"
    "\<forall>s\<in>set js. \<not> isUpdateOrderId s"
    unfolding journals_only_def by blast
  have "\<forall>new_id old_id. UpdateOrderId new_id old_id \<notin> set js"
    using js(2) isUpdateOrderId_simps(9) by blast
  with js(1) show ?thesis
    by (auto simp: checkOrder_no_position [OF assms])
qed

text \<open>Scenario C: the stop-loss order, nothing on the exchange.\<close>

theorem checkOrder_without_position_witness:
  "normalizeContract (snapshotOf [] [] []) (symbol stopLossOrder)
      \<notin> set (exchangePositionContracts []) \<and>
   order_id stopLossOrder \<notin> set (exchangeOrderIds []) \<and>
   checkOrder noFaults (snapshotOf [] [] []) 2000000 [] [] stopLossOrder
      (storeOf [btcPosition] [stopLossOrder]) =
   handleTriggeredOrder noFaults (snapshotOf [] [] []) 2000000 stopLossOrder
      (storeOf [btcPosition] [stopLossOrder]) \<and>
   (\<forall>new_id old_id. UpdateOrderId new_id old_id \<notin> set (journal (snd
      (checkOrder noFaults (snapshotOf [] [] []) 2000000 [] [] stopLossOrder
         (storeOf [btcPosition] [stopLossOrder])))))"
proof -
  have a: "order_id stopLossOrder \<notin> set (exchangeOrderIds [])"
    by (simp add: exchangeOrderIds_def)
  have b: "normalizeContract (snapshotOf [] [] []) (symbol stopLossOrder)
      \<notin> set (exchangePositionContracts [])"
    by (simp add: exchangePositionContracts_def)
  have j: "journal (storeOf [btcPosition] [stopLossOrder]) = []"
    by (simp add: storeOf_def)
  show ?thesis
    using checkOrder_without_position [OF b, where F = noFaults and now = 2000000
        and eos = "[]" and d = "storeOf [btcPosition] [stopLossOrder]"] a b j
    by auto
qed

section \<open>The price test of the trade search\<close>




section \<open>The cases of the lease lock\<close>

text \<open>
  Claim C7: when the store executes its statements, \<open>tryAcquire\<close> returns true and
  writes the caller as holder with a fresh timestamp if there is no lease row for the
  key, or if the lease is the caller's own and its age is within the 30 seconds, or if
  the age of the lease exceeds the 30 seconds whoever holds it; it returns false, and
  changes nothing, if another holder's lease is younger than the 30 seconds.
\<close>

theorem tryAcquire_cases:
  assumes "\<forall>s. \<not> F s"
  shows "(st key = None \<longrightarrow>
            tryAcquire F now key holder st = (True, st(key \<mapsto> (holder, now)))) \<and>
         (\<forall>t. st key = Some (holder, t) \<and> now - t \<le> LOCK_TIMEOUT_MS \<longrightarrow>
            tryAcquire F now key holder st = (True, st(key \<mapsto> (holder, now)))) \<and>
         (\<forall>h t. st key = Some (h, t) \<and> now - t > LOCK_TIMEOUT_MS \<longrightarrow>
            tryAcquire F now key holder st = (True, st(key \<mapsto> (holder, now)))) \<and>
         (\<forall>h t. st key = Some (h, t) \<and> h \<noteq> holder \<and> now - t < LOCK_TIMEOUT_MS \<longrightarrow>
            tryAcquire F now key holder st = (False, st))"
  using assms by (auto simp: tryAcquire_def acquireLease_def Let_def)

text \<open>
  The four cases at the key \<open>k\<close>: no lease; the caller's own lease, 10 seconds old;
  another holder's lease, 40 seconds old; another holder's lease, 10 seconds old.
\<close>

theorem tryAcquire_cases_witness:
  "tryAcquire (\<lambda>s. False) 50000 ''k'' ''health-check'' Map.empty
     = (True, [''k'' \<mapsto> (''health-check'', 50000)]) \<and>
   tryAcquire (\<lambda>s. False) 50000 ''k'' ''health-check'' [''k'' \<mapsto> (''health-check'', 40000)]
     = (True, [''k'' \<mapsto> (''health-check'', 50000)]) \<and>
   tryAcquire (\<lambda>s. False) 50000 ''k'' ''health-check'' [''k'' \<mapsto> (''ai-agent'', 10000)]
     = (True, [''k'' \<mapsto> (''health-check'', 50000)]) \<and>
   tryAcquire (\<lambda>s. False) 50000 ''k'' ''health-check'' [''k'' \<mapsto> (''ai-agent'', 40000)]
     = (False, [''k'' \<mapsto> (''ai-agent'', 40000)])"
proof -
  have nf: "\<forall>s. \<not> (\<lambda>s::lease_stmt. False) s" by simp
  have a: "tryAcquire (\<lambda>s. False) 50000 ''k'' ''health-check'' Map.empty
     = (True, [''k'' \<mapsto> (''health-check'', 50000)])"
    using tryAcquire_cases [OF nf, of Map.empty "''k''" 50000 "''health-check''"] by simp
  have b: "tryAcquire (\<lambda>s. False) 50000 ''k'' ''health-check''
       [''k'' \<mapsto> (''health-check'', 40000)]
     = (True, [''k'' \<mapsto> (''health-check'', 50000)])"
    using tryAcquire_cases [OF nf, of "[''k'' \<mapsto> (''health-check'', 40000)]" "''k''" 50000
        "''health-check''"]
    by (simp add: LOCK_TIMEOUT_MS_def)
  have c: "tryAcquire (\<lambda>s. False) 50000 ''k'' ''health-check'' [''k'' \<mapsto> (''ai-agent'', 10000)]
     = (True, [''k'' \<mapsto> (''health-check'', 50000)])"
    using tryAcquire_cases [OF nf, of "[''k'' \<mapsto> (''ai-agent'', 10000)]" "''k''" 50000
        "''health-check''"]
    by (simp add: LOCK_TIMEOUT_MS_def)
  have d: "tryAcquire (\<lambda>s. False) 50000 ''k'' ''health-check'' [''k'' \<mapsto> (''ai-agent'', 40000)]
     = (False, [''k'' \<mapsto> (''ai-agent'', 40000)])"
    using tryAcquire_cases [OF nf, of "[''k'' \<mapsto> (''ai-agent'', 40000)]" "''k''" 50000
        "''health-check''"]
    by (simp add: LOCK_TIMEOUT_MS_def)
  from a b c d show ?thesis by simp
qed

end
